theory Spec2Isabelle
  imports Complex_Main
begin

section \<open>JavaScript strings and the regular expressions of the decomposer\<close>

text \<open>
  A JavaScript string is a sequence of UTF-16 code units. The model uses \<^typ>\<open>string\<close>,
  whose characters carry a code from 0 to 255, and reads a character as the code unit of
  the same number: the embedding speaks about addresses written in ASCII or Latin-1.
\<close>

definition code :: "char \<Rightarrow> nat" where
  "code c = of_char c"

text \<open>\<^verbatim>\<open>\s\<close> and \<^verbatim>\<open>trim()\<close>: white space and line terminators (TAB, LF, VT, FF, CR, SP, NBSP).\<close>

definition is_space :: "char \<Rightarrow> bool" where
  "is_space c = (code c \<in> set [9, 10, 11, 12, 13, 32, 160])"

text \<open>\<^verbatim>\<open>\d\<close> is \<^verbatim>\<open>[0-9]\<close>.\<close>

definition between :: "nat \<Rightarrow> nat \<Rightarrow> nat \<Rightarrow> bool" where
  "between lo hi n = (lo \<le> n \<and> n \<le> hi)"

definition is_digit :: "char \<Rightarrow> bool" where
  "is_digit c = between 48 57 (code c)"

text \<open>\<^verbatim>\<open>\w\<close> is \<^verbatim>\<open>[A-Za-z0-9_]\<close>; \<^verbatim>\<open>\b\<close> compares it on both sides of a position.\<close>

definition word_code :: "nat \<Rightarrow> bool" where
  "word_code n = (between 65 90 n \<or> between 97 122 n \<or> between 48 57 n \<or> n = 95)"

definition is_word :: "char \<Rightarrow> bool" where
  "is_word c = word_code (code c)"

text \<open>
  \<^verbatim>\<open>toLowerCase()\<close> on one code unit below 256: A to Z, and the Latin-1 capitals
  U+00C0 to U+00DE without the multiplication sign U+00D7, move up by 32.
\<close>

definition has_lower :: "nat \<Rightarrow> bool" where
  "has_lower n = (between 65 90 n \<or> (between 192 222 n \<and> n \<noteq> 215))"

definition lower_char :: "char \<Rightarrow> char" where
  "lower_char c = (if has_lower (code c) then char_of (code c + 32) else c)"

definition toLowerCase :: "string \<Rightarrow> string" where
  "toLowerCase s = map lower_char s"

definition trim :: "string \<Rightarrow> string" where
  "trim s = rev (dropWhile is_space (rev (dropWhile is_space s)))"

text \<open>\<^verbatim>\<open>s.includes(t)\<close>: \<open>t\<close> occurs in \<open>s\<close> as a contiguous run.\<close>

fun starts_with :: "string \<Rightarrow> string \<Rightarrow> bool" where
  "starts_with s [] = True"
| "starts_with [] (y # ys) = False"
| "starts_with (x # xs) (y # ys) = (x = y \<and> starts_with xs ys)"

fun includes_str :: "string \<Rightarrow> string \<Rightarrow> bool" where
  "includes_str [] t = (t = [])"
| "includes_str (x # xs) t = (starts_with (x # xs) t \<or> includes_str xs t)"

text \<open>\<^verbatim>\<open>xs.join(sep)\<close>.\<close>

fun join :: "string \<Rightarrow> string list \<Rightarrow> string" where
  "join sep [] = []"
| "join sep [x] = x"
| "join sep (x # y # ys) = x @ sep @ join sep (y # ys)"

subsection \<open>A backtracking matcher for the patterns the source uses\<close>

text \<open>
  The patterns of \<^verbatim>\<open>formatAddress\<close> are built from literal text, the classes
  \<^verbatim>\<open>\s\<close>, \<^verbatim>\<open>\d\<close>, \<^verbatim>\<open>[a-z]\<close> and \<^verbatim>\<open>[,\/\\]\<close>, the assertion \<^verbatim>\<open>\b\<close>,
  sequence, alternation \<^verbatim>\<open>|\<close>, the greedy \<^verbatim>\<open>?\<close>, and the greedy \<^verbatim>\<open>*\<close> and \<^verbatim>\<open>+\<close> on
  a class.
\<close>

datatype cclass = Space | Digit | Range char char | OneOf "char list"

datatype regex =
    Chars string
  | Cls cclass
  | WordB
  | Seq regex regex
  | Alt regex regex
  | Opt regex
  | Star cclass
  | Plus cclass

fun in_class :: "cclass \<Rightarrow> char \<Rightarrow> bool" where
  "in_class Space c = is_space c"
| "in_class Digit c = is_digit c"
| "in_class (Range a b) c = between (code a) (code b) (code c)"
| "in_class (OneOf cs) c = (c \<in> set cs)"

text \<open>
  With the flag \<^verbatim>\<open>i\<close> two code units match when their canonical (upper-case) forms
  agree; for an ASCII letter of the pattern that is equality up to ASCII case, since no
  code unit from 128 to 255 canonicalises to an ASCII letter.
\<close>

definition ascii_lower :: "nat \<Rightarrow> nat" where
  "ascii_lower n = (if between 65 90 n then n + 32 else n)"

definition same_char :: "bool \<Rightarrow> char \<Rightarrow> char \<Rightarrow> bool" where
  "same_char ic p c =
     (if p = c then True
      else if ic then ascii_lower (code p) = ascii_lower (code c)
      else False)"

text \<open>
  A position is the code unit before it (if any) and the input that remains. The matcher
  returns every position at which the pattern can end, in the order in which a
  backtracking engine tries them: the head of the list is the match JavaScript reports.
\<close>

type_synonym pos = "char option \<times> string"

fun lit :: "bool \<Rightarrow> string \<Rightarrow> pos \<Rightarrow> pos list" where
  "lit ic [] p = [p]"
| "lit ic (x # xs) (prev, []) = []"
| "lit ic (x # xs) (prev, c # cs) = (if same_char ic x c then lit ic xs (Some c, cs) else [])"

text \<open>Greedy repetition of a class: the longest run first, the empty run last.\<close>

fun greedy_run :: "cclass \<Rightarrow> pos \<Rightarrow> pos list" where
  "greedy_run cl (prev, []) = [(prev, [])]"
| "greedy_run cl (prev, c # cs) =
     (if in_class cl c then greedy_run cl (Some c, cs) else []) @ [(prev, c # cs)]"

definition word_before :: "pos \<Rightarrow> bool" where
  "word_before p = (case fst p of None \<Rightarrow> False | Some c \<Rightarrow> is_word c)"

definition word_after :: "pos \<Rightarrow> bool" where
  "word_after p = (case snd p of [] \<Rightarrow> False | c # _ \<Rightarrow> is_word c)"

fun ms :: "bool \<Rightarrow> regex \<Rightarrow> pos \<Rightarrow> pos list" where
  "ms ic (Chars s) p = lit ic s p"
| "ms ic (Cls cl) (prev, []) = []"
| "ms ic (Cls cl) (prev, c # cs) = (if in_class cl c then [(Some c, cs)] else [])"
| "ms ic WordB p = (if word_before p \<noteq> word_after p then [p] else [])"
| "ms ic (Seq a b) p = concat (map (ms ic b) (ms ic a p))"
| "ms ic (Alt a b) p = ms ic a p @ ms ic b p"
| "ms ic (Opt a) p = ms ic a p @ [p]"
| "ms ic (Star cl) p = greedy_run cl p"
| "ms ic (Plus cl) (prev, []) = []"
| "ms ic (Plus cl) (prev, c # cs) = (if in_class cl c then greedy_run cl (Some c, cs) else [])"

text \<open>
  \<^verbatim>\<open>s.replace(/r/g, rep)\<close> with a replacement text free of \<^verbatim>\<open>$\<close>: scan from the left;
  where the pattern matches, emit \<open>rep\<close> and go on behind the match; after an empty match
  and where it does not match, copy one code unit and go on behind it.
\<close>

fun replace_all :: "bool \<Rightarrow> regex \<Rightarrow> string \<Rightarrow> char option \<Rightarrow> string \<Rightarrow> string" where
  "replace_all ic r rep prev [] = (case ms ic r (prev, []) of [] \<Rightarrow> [] | q # qs \<Rightarrow> rep)"
| "replace_all ic r rep prev (c # cs) =
     (case ms ic r (prev, c # cs) of
        [] \<Rightarrow> c # replace_all ic r rep (Some c) cs
      | q # qs \<Rightarrow>
          if length (snd q) < Suc (length cs)
          then rep @ replace_all ic r rep (fst q) (snd q)
          else rep @ c # replace_all ic r rep (Some c) cs)"

definition replace :: "bool \<Rightarrow> regex \<Rightarrow> string \<Rightarrow> string \<Rightarrow> string" where
  "replace ic r rep s = replace_all ic r rep None s"

text \<open>
  \<^verbatim>\<open>s.split(/r/)\<close> for a pattern without groups and no limit. \<open>acc\<close> is the piece
  collected since the last separator. A match that consumes input closes the piece; an
  empty match closes a piece that is not empty and never produces an empty one. The
  empty input gives one empty piece unless the pattern matches it.
\<close>

fun split_from :: "bool \<Rightarrow> regex \<Rightarrow> string \<Rightarrow> char option \<Rightarrow> string \<Rightarrow> string list" where
  "split_from ic r acc prev [] = [acc]"
| "split_from ic r acc prev (c # cs) =
     (case ms ic r (prev, c # cs) of
        [] \<Rightarrow> split_from ic r (acc @ [c]) (Some c) cs
      | q # qs \<Rightarrow>
          if length (snd q) < Suc (length cs)
          then acc # split_from ic r [] (fst q) (snd q)
          else if acc = [] then split_from ic r [c] (Some c) cs
          else acc # split_from ic r [c] (Some c) cs)"

definition split :: "bool \<Rightarrow> regex \<Rightarrow> string \<Rightarrow> string list" where
  "split ic r s =
     (if s = [] then (case ms ic r (None, []) of [] \<Rightarrow> [[]] | q # qs \<Rightarrow> [])
      else split_from ic r [] None s)"


section \<open>The decomposer: \<^verbatim>\<open>formatAddress\<close>\<close>

record alternative_queries =
  neighbourhoodOnly :: "string option"
  townOnly :: "string option"
  localGovernmentOnly :: "string option"

text \<open>Interface \<^verbatim>\<open>FormattedAddress\<close>: an optional property is \<open>None\<close> while it is unset.\<close>

record formatted_address =
  street :: "string option"
  neighbourhood :: "string option"
  town :: "string option"
  localGovernment :: "string option"
  state :: "string option"
  formattedQuery :: string
  alternativeQueries :: "alternative_queries option"

text \<open>Truthiness of an optional string: \<^verbatim>\<open>undefined\<close> and \<^verbatim>\<open>""\<close> are falsy.\<close>

fun truthy :: "string option \<Rightarrow> bool" where
  "truthy None = False"
| "truthy (Some s) = (s \<noteq> [])"

text \<open>\<^verbatim>\<open>/\s+/g\<close>\<close>

definition rx_spaces :: regex where
  "rx_spaces = Plus Space"

text \<open>\<^verbatim>\<open>/\b(?:no\.|number)?\s*\d+[a-z]?\b/g\<close>\<close>

definition rx_house_number :: regex where
  "rx_house_number =
     Seq WordB (Seq (Opt (Alt (Chars ''no.'') (Chars ''number'')))
       (Seq (Star Space) (Seq (Plus Digit) (Seq (Opt (Cls (Range CHR ''a'' CHR ''z''))) WordB))))"

text \<open>\<^verbatim>\<open>/\b(?:off|adjacent to|beside|near|opposite|behind|in front of|next to)\b\s*/gi\<close>\<close>

definition rx_directional :: regex where
  "rx_directional =
     Seq WordB (Seq
       (Alt (Chars ''off'') (Alt (Chars ''adjacent to'') (Alt (Chars ''beside'')
         (Alt (Chars ''near'') (Alt (Chars ''opposite'') (Alt (Chars ''behind'')
           (Alt (Chars ''in front of'') (Chars ''next to''))))))))
       (Seq WordB (Star Space)))"

text \<open>\<^verbatim>\<open>/\b(?:the|at|on|in)\b\s*/gi\<close>\<close>

definition rx_filler :: regex where
  "rx_filler =
     Seq WordB (Seq (Alt (Chars ''the'') (Alt (Chars ''at'') (Alt (Chars ''on'') (Chars ''in''))))
       (Seq WordB (Star Space)))"

text \<open>\<^verbatim>\<open>/[,\/\\]/g\<close>\<close>

definition rx_separator :: regex where
  "rx_separator = Cls (OneOf [CHR '','', CHR ''/'', CHR 0x5C])"

text \<open>The three local values of \<^verbatim>\<open>formatAddress\<close> before the assignment.\<close>

definition cleanedAddress :: "string \<Rightarrow> string" where
  "cleanedAddress address = trim (replace False rx_spaces '' '' (toLowerCase address))"

definition withoutDescriptives :: "string \<Rightarrow> string" where
  "withoutDescriptives address =
     trim (replace False rx_spaces '' ''
       (replace True rx_filler []
         (replace True rx_directional []
           (replace False rx_house_number [] (cleanedAddress address)))))"

definition parts :: "string \<Rightarrow> string list" where
  "parts address =
     filter (\<lambda>part. length part > 0) (map trim (split False rx_separator (withoutDescriptives address)))"

definition empty_address :: formatted_address where
  "empty_address = \<lparr>street = None, neighbourhood = None, town = None, localGovernment = None,
     state = None, formattedQuery = [], alternativeQueries = None\<rparr>"

text \<open>Lines 159 to 179: the positional assignment, one \<^verbatim>\<open>if\<close> statement after the other.\<close>

definition assign_street :: "string list \<Rightarrow> formatted_address \<Rightarrow> formatted_address" where
  "assign_street ps fa = (if length ps \<ge> 1 then fa\<lparr>street := Some (ps ! 0)\<rparr> else fa)"

definition has_neighbourhood_keyword :: "string \<Rightarrow> bool" where
  "has_neighbourhood_keyword p =
     (includes_str p ''district'' \<or> includes_str p ''area'' \<or> includes_str p ''quarter'')"

definition assign_second :: "string list \<Rightarrow> formatted_address \<Rightarrow> formatted_address" where
  "assign_second ps fa =
     (if length ps \<ge> 2 then
        (if has_neighbourhood_keyword (ps ! 1)
         then (let fa' = fa\<lparr>neighbourhood := Some (ps ! 1)\<rparr>
               in if length ps \<ge> 3 then fa'\<lparr>town := Some (ps ! 2)\<rparr> else fa')
         else fa\<lparr>town := Some (ps ! 1)\<rparr>)
      else fa)"

definition assign_localGovernment :: "string list \<Rightarrow> formatted_address \<Rightarrow> formatted_address" where
  "assign_localGovernment ps fa =
     (if length ps \<ge> 3 \<and> \<not> truthy (town fa) then fa\<lparr>localGovernment := Some (ps ! 2)\<rparr>
      else if length ps \<ge> 4 then fa\<lparr>localGovernment := Some (ps ! 3)\<rparr>
      else fa)"

definition assign_state :: "string list \<Rightarrow> formatted_address \<Rightarrow> formatted_address" where
  "assign_state ps fa =
     (if length ps \<ge> 4 \<and> \<not> truthy (localGovernment fa) then fa\<lparr>state := Some (ps ! 3)\<rparr>
      else if length ps \<ge> 5 then fa\<lparr>state := Some (ps ! 4)\<rparr>
      else fa)"

definition assign_parts :: "string list \<Rightarrow> formatted_address" where
  "assign_parts ps =
     assign_state ps (assign_localGovernment ps (assign_second ps (assign_street ps empty_address)))"

text \<open>Lines 182 to 187: \<^verbatim>\<open>if (c) queryParts.push(c)\<close>.\<close>

fun push_if :: "string option \<Rightarrow> string list \<Rightarrow> string list" where
  "push_if None qs = qs"
| "push_if (Some s) qs = (if s \<noteq> [] then qs @ [s] else qs)"

definition queryParts :: "formatted_address \<Rightarrow> string list" where
  "queryParts fa =
     push_if (state fa) (push_if (localGovernment fa) (push_if (town fa)
       (push_if (neighbourhood fa) (push_if (street fa) []))))"

text \<open>\<^verbatim>\<open>c ? c : undefined\<close>\<close>

definition or_undefined :: "string option \<Rightarrow> string option" where
  "or_undefined c = (if truthy c then c else None)"

definition formatAddress :: "string \<Rightarrow> formatted_address" where
  "formatAddress address =
     (let fa = assign_parts (parts address);
          fa = fa\<lparr>formattedQuery := join '', '' (queryParts fa)\<rparr>
      in fa\<lparr>alternativeQueries := Some
           \<lparr>neighbourhoodOnly = or_undefined (neighbourhood fa),
            townOnly = or_undefined (town fa),
            localGovernmentOnly = or_undefined (localGovernment fa)\<rparr>\<rparr>)"


section \<open>The agent: state, corrector, handlers\<close>

text \<open>One entry of \<^verbatim>\<open>processedAddresses\<close>; \<^verbatim>\<open>corrected\<close> is \<open>None\<close> when the model's reply
  had no \<^verbatim>\<open>correctedAddress\<close>.\<close>

record processed_address =
  original :: string
  corrected :: "string option"
  timestamp :: string

record correction_stats =
  spellingCorrected :: nat
  missingComponentsAdded :: nat
  totalProcessed :: nat

record agent_state =
  processedAddresses :: "processed_address list"
  correctionStats :: correction_stats

text \<open>\<^verbatim>\<open>init()\<close>\<close>

definition init :: agent_state where
  "init = \<lparr>processedAddresses = [],
     correctionStats = \<lparr>spellingCorrected = 0, missingComponentsAdded = 0, totalProcessed = 0\<rparr>\<rparr>"

text \<open>\<^verbatim>\<open>xs.slice(-n)\<close>: the last \<open>n\<close> elements, all of them when there are fewer.\<close>

definition slice_last :: "nat \<Rightarrow> 'a list \<Rightarrow> 'a list" where
  "slice_last n xs = drop (length xs - n) xs"

subsection \<open>\<^verbatim>\<open>correctAddress\<close>\<close>

text \<open>
  The language model is outside the program. What \<^verbatim>\<open>correctAddress\<close> receives from it is
  an input of the model:
  \<^item> \<open>CallFails\<close>: \<^verbatim>\<open>ai.chat.completions.create\<close> rejects (network error, timeout, error
    status), or the response has no \<^verbatim>\<open>choices[0].message\<close>;
  \<^item> \<open>ContentNotJson\<close>: \<^verbatim>\<open>JSON.parse\<close> throws on the content;
  \<^item> \<open>Parsed r\<close>: \<^verbatim>\<open>JSON.parse\<close> returns a value, read through the three properties the
    program uses. A property the value does not have is \<open>None\<close>; so is a \<^verbatim>\<open>corrections\<close>
    that is \<^verbatim>\<open>null\<close>. A parsed value that is no object (\<^verbatim>\<open>null\<close>, a number) has none of
    them. A \<^verbatim>\<open>corrections\<close> that is present is an array of strings and a
    \<^verbatim>\<open>correctedAddress\<close> that is present is a string, as the declared return type says.
\<close>

record model_reply =
  reply_correctedAddress :: "string option"
  reply_corrections :: "string list option"
  reply_confidence :: "real option"

datatype ai_outcome = CallFails | ContentNotJson | Parsed model_reply

datatype js_error = NetworkError | SyntaxError | TypeError

text \<open>The value \<^verbatim>\<open>correctAddress\<close> resolves to.\<close>

record correction_result =
  correctedAddress :: "string option"
  corrections :: "string list"
  confidence :: "real option"

text \<open>
  Lines 67 to 116, the body of \<^verbatim>\<open>try\<close>: \<open>Inl\<close> is an exception on its way to \<^verbatim>\<open>catch\<close>.
  \<open>now\<close> is \<^verbatim>\<open>new Date().toISOString()\<close>. Reading \<^verbatim>\<open>result.corrections.length\<close> is the
  last step that can throw, and it comes before the first write to the state.
\<close>

definition correct_try ::
  "string \<Rightarrow> ai_outcome \<Rightarrow> string \<Rightarrow> agent_state \<Rightarrow> js_error + (correction_result \<times> agent_state)" where
  "correct_try address ai now st =
     (case ai of
        CallFails \<Rightarrow> Inl NetworkError
      | ContentNotJson \<Rightarrow> Inl SyntaxError
      | Parsed r \<Rightarrow>
          (case reply_corrections r of
             None \<Rightarrow> Inl TypeError
           | Some cs \<Rightarrow>
               (let currentStats = correctionStats st;
                    currentStats =
                      (if length cs > 0
                       then currentStats\<lparr>spellingCorrected := spellingCorrected currentStats + 1\<rparr>
                       else currentStats);
                    currentStats = currentStats\<lparr>totalProcessed := totalProcessed currentStats + 1\<rparr>
                in Inr (\<lparr>correctedAddress = reply_correctedAddress r, corrections = cs,
                          confidence = reply_confidence r\<rparr>,
                        st\<lparr>correctionStats := currentStats,
                           processedAddresses := slice_last 100
                             (processedAddresses st @
                                [\<lparr>original = address, corrected = reply_correctedAddress r,
                                  timestamp = now\<rparr>])\<rparr>))))"

definition correctAddress ::
  "string \<Rightarrow> ai_outcome \<Rightarrow> string \<Rightarrow> agent_state \<Rightarrow> correction_result \<times> agent_state" where
  "correctAddress address ai now st =
     (case correct_try address ai now st of
        Inr returned \<Rightarrow> returned
      | Inl error \<Rightarrow>
          (\<lparr>correctedAddress = Some address, corrections = [], confidence = Some 0\<rparr>, st))"

subsection \<open>\<^verbatim>\<open>generateNominatimUrl\<close>\<close>

definition hex_digit :: "nat \<Rightarrow> char" where
  "hex_digit n = (if n < 10 then char_of (48 + n) else char_of (55 + n))"

definition percent_byte :: "nat \<Rightarrow> string" where
  "percent_byte b = [CHR ''%'', hex_digit (b div 16), hex_digit (b mod 16)]"

text \<open>
  \<^verbatim>\<open>encodeURIComponent\<close> on a code unit below 256: letters, digits and
  \<^verbatim>\<open>- _ . ! ~ * ' ( )\<close> stay; every other one is escaped byte by byte in UTF-8, which
  takes one byte below 128 and two from 128 on.
\<close>

definition uri_unreserved :: "char \<Rightarrow> bool" where
  "uri_unreserved c =
     (c \<in> set ''-_.!~*()'' \<or> c = CHR 0x27
      \<or> between 65 90 (code c) \<or> between 97 122 (code c) \<or> is_digit c)"

definition utf8_escape :: "nat \<Rightarrow> string" where
  "utf8_escape n =
     (if n < 128 then percent_byte n
      else percent_byte (192 + n div 64) @ percent_byte (128 + n mod 64))"

definition encode_char :: "char \<Rightarrow> string" where
  "encode_char c = (if uri_unreserved c then [c] else utf8_escape (code c))"

definition encodeURIComponent :: "string \<Rightarrow> string" where
  "encodeURIComponent s = concat (map encode_char s)"

definition generateNominatimUrl :: "string \<Rightarrow> string" where
  "generateNominatimUrl query =
     ''https://nm.latlens.com/nominatim/search?q='' @ encodeURIComponent query @ ''&format=json''"


subsection \<open>\<^verbatim>\<open>handleSearch\<close>\<close>

text \<open>
  The geocoder is outside the program too. \<open>fetch url = Some data\<close> when \<^verbatim>\<open>fetch(url)\<close>
  resolves and its body parses to the JSON array \<open>data\<close> of match records (their content
  is opaque, the type \<open>'r\<close>); \<open>None\<close> when \<^verbatim>\<open>fetch\<close> rejects or the body is not JSON.
\<close>

type_synonym 'r fetch = "string \<Rightarrow> 'r list option"

record 'r search_body =
  search_original :: string
  search_corrected :: "string option"
  search_corrections :: "string list"
  search_confidence :: "real option"
  search_formatted :: formatted_address
  results :: "'r list"
  alternativeResults :: "(string \<times> 'r list) list option"

record format_body =
  format_original :: string
  format_corrected :: "string option"
  format_corrections :: "string list"
  format_confidence :: "real option"
  formatted :: formatted_address
  nominatimUrl :: string
  alternativeUrls :: "(string \<times> string) list"

record stats_body =
  stats :: correction_stats
  recentAddresses :: "processed_address list"

text \<open>
  What a handler produces: a JSON error body with its status, one of the three JSON
  bodies with status 200, the plain text of the default route, or no response at all
  because an exception leaves the handler.
\<close>

datatype 'r response =
    ErrorBody nat string
  | SearchOk "'r search_body"
  | FormatOk format_body
  | StatsOk stats_body
  | PlainText nat string
  | Rejects js_error

text \<open>\<^verbatim>\<open>formattedAddress.alternativeQueries?.townOnly\<close> and its siblings.\<close>

definition alt_query ::
  "(alternative_queries \<Rightarrow> string option) \<Rightarrow> formatted_address \<Rightarrow> string option" where
  "alt_query sel fa = (case alternativeQueries fa of None \<Rightarrow> None | Some aq \<Rightarrow> sel aq)"

text \<open>
  Lines 288 to 292 and 294 to 298: \<^verbatim>\<open>if (q) { alternativeResults[key] = await (await
  fetch(url(q))).json() }\<close>. The second component lists the URLs fetched so far.
\<close>

definition try_alternative ::
  "'r fetch \<Rightarrow> string \<Rightarrow> string option \<Rightarrow> (string \<times> 'r list) list \<times> string list
     \<Rightarrow> (js_error + (string \<times> 'r list) list) \<times> string list" where
  "try_alternative fetch key q acc =
     (case q of
        None \<Rightarrow> (Inr (fst acc), snd acc)
      | Some t \<Rightarrow>
          if t = [] then (Inr (fst acc), snd acc)
          else (let url = generateNominatimUrl t
                in case fetch url of
                     None \<Rightarrow> (Inl NetworkError, snd acc @ [url])
                   | Some r \<Rightarrow> (Inr (fst acc @ [(key, r)]), snd acc @ [url])))"

text \<open>Lines 277 to 299, the body of \<^verbatim>\<open>try\<close> up to the response.\<close>

definition search_try ::
  "'r fetch \<Rightarrow> formatted_address
     \<Rightarrow> (js_error + ('r list \<times> (string \<times> 'r list) list)) \<times> string list" where
  "search_try fetch fa =
     (let url = generateNominatimUrl (formattedQuery fa)
      in case fetch url of
           None \<Rightarrow> (Inl NetworkError, [url])
         | Some data \<Rightarrow>
             if length data < 2 then
               (case try_alternative fetch ''town'' (alt_query townOnly fa) ([], [url]) of
                  (Inl e, calls) \<Rightarrow> (Inl e, calls)
                | (Inr alt, calls) \<Rightarrow>
                    (case try_alternative fetch ''neighborhood''
                            (alt_query neighbourhoodOnly fa) (alt, calls) of
                       (Inl e, calls) \<Rightarrow> (Inl e, calls)
                     | (Inr alt, calls) \<Rightarrow> (Inr (data, alt), calls)))
             else (Inr (data, []), [url]))"

text \<open>
  What \<^verbatim>\<open>handleSearch\<close> does: the response, the URLs fetched in order, and the state it
  leaves.
\<close>

record 'r served =
  response :: "'r response"
  fetched :: "string list"
  state_after :: agent_state

text \<open>
  \<open>query\<close> is \<^verbatim>\<open>url.searchParams.get('q')\<close>. \<^verbatim>\<open>formatAddress\<close> is called outside
  \<^verbatim>\<open>try\<close>: with no \<^verbatim>\<open>correctedAddress\<close> its \<^verbatim>\<open>toLowerCase\<close> call throws and the handler
  rejects.
\<close>

definition handleSearch ::
  "string option \<Rightarrow> ai_outcome \<Rightarrow> string \<Rightarrow> 'r fetch \<Rightarrow> agent_state \<Rightarrow> 'r served" where
  "handleSearch query ai now fetch st =
     (if \<not> truthy query
      then \<lparr>response = ErrorBody 400 ''Query parameter is required'', fetched = [],
            state_after = st\<rparr>
      else
        (let correction = correctAddress (the query) ai now st;
             correctionResult = fst correction;
             st' = snd correction
         in case correctedAddress correctionResult of
              None \<Rightarrow> \<lparr>response = Rejects TypeError, fetched = [], state_after = st'\<rparr>
            | Some ca \<Rightarrow>
                (let formattedAddress = formatAddress ca
                 in case search_try fetch formattedAddress of
                      (Inl e, calls) \<Rightarrow>
                        \<lparr>response = ErrorBody 500 ''Failed to fetch from Nominatim'',
                         fetched = calls, state_after = st'\<rparr>
                    | (Inr (data, alt), calls) \<Rightarrow>
                        \<lparr>response = SearchOk \<lparr>search_original = the query,
                           search_corrected = correctedAddress correctionResult,
                           search_corrections = corrections correctionResult,
                           search_confidence = confidence correctionResult,
                           search_formatted = formattedAddress,
                           results = data,
                           alternativeResults = (if length alt > 0 then Some alt else None)\<rparr>,
                         fetched = calls, state_after = st'\<rparr>)))"

subsection \<open>\<^verbatim>\<open>handleFormatAddress\<close>, \<^verbatim>\<open>getStats\<close>, \<^verbatim>\<open>onRequest\<close>\<close>

text \<open>The request body: \<^verbatim>\<open>request.json()\<close> rejects (or gives \<^verbatim>\<open>null\<close>), or gives an
  object whose \<^verbatim>\<open>address\<close> may be missing.\<close>

datatype request_body = BodyUnreadable | Body "string option"

definition add_url :: "string \<Rightarrow> string option \<Rightarrow> (string \<times> string) list \<Rightarrow> (string \<times> string) list" where
  "add_url key q urls = (if truthy q then urls @ [(key, generateNominatimUrl (the q))] else urls)"

definition handleFormatAddress ::
  "request_body \<Rightarrow> ai_outcome \<Rightarrow> string \<Rightarrow> agent_state \<Rightarrow> 'r response \<times> agent_state" where
  "handleFormatAddress body ai now st =
     (case body of
        BodyUnreadable \<Rightarrow> (ErrorBody 500 ''Failed to process address'', st)
      | Body address \<Rightarrow>
          if \<not> truthy address then (ErrorBody 400 ''Address is required'', st)
          else
            (let correction = correctAddress (the address) ai now st;
                 correctionResult = fst correction;
                 st' = snd correction
             in case correctedAddress correctionResult of
                  None \<Rightarrow> (ErrorBody 500 ''Failed to process address'', st')
                | Some ca \<Rightarrow>
                    (let formattedAddress = formatAddress ca
                     in (FormatOk \<lparr>format_original = the address,
                           format_corrected = correctedAddress correctionResult,
                           format_corrections = corrections correctionResult,
                           format_confidence = confidence correctionResult,
                           formatted = formattedAddress,
                           nominatimUrl = generateNominatimUrl (formattedQuery formattedAddress),
                           alternativeUrls =
                             add_url ''localGovernmentOnly'' (alt_query localGovernmentOnly formattedAddress)
                               (add_url ''townOnly'' (alt_query townOnly formattedAddress)
                                 (add_url ''neighbourhoodOnly''
                                   (alt_query neighbourhoodOnly formattedAddress) []))\<rparr>,
                         st'))))"

definition getStats :: "agent_state \<Rightarrow> 'r response" where
  "getStats st =
     StatsOk \<lparr>stats = correctionStats st, recentAddresses = slice_last 10 (processedAddresses st)\<rparr>"

text \<open>
  A request as \<^verbatim>\<open>onRequest\<close> routes it, together with what the outside world answers
  while it is served: the model's reply, the clock, the geocoder.
\<close>

datatype 'r request =
    PostFormatAddress request_body ai_outcome string
  | GetSearch "string option" ai_outcome string "'r fetch"
  | GetStats
  | AnyOther

fun onRequest :: "'r request \<Rightarrow> agent_state \<Rightarrow> 'r response \<times> agent_state" where
  "onRequest (PostFormatAddress body ai now) st = handleFormatAddress body ai now st"
| "onRequest (GetSearch query ai now fetch) st =
     (let r = handleSearch query ai now fetch st in (response r, state_after r))"
| "onRequest GetStats st = (getStats st, st)"
| "onRequest AnyOther st =
     (PlainText 200 ''Nominatim Address Formatter API - AI Agent Edition'', st)"

subsection \<open>Sequences of calls\<close>

text \<open>A call of \<^verbatim>\<open>correctAddress\<close>: the address, the model's reply, the clock.\<close>

type_synonym correction_call = "string \<times> ai_outcome \<times> string"

definition correct_call :: "correction_call \<Rightarrow> agent_state \<Rightarrow> correction_result \<times> agent_state" where
  "correct_call c st = correctAddress (fst c) (fst (snd c)) (snd (snd c)) st"

fun correct_all :: "correction_call list \<Rightarrow> agent_state \<Rightarrow> agent_state" where
  "correct_all [] st = st"
| "correct_all (c # cs) st = correct_all cs (snd (correct_call c st))"

text \<open>Any operation of the agent: a method called directly or a request routed to it.\<close>

datatype 'r operation =
    CorrectAddress string ai_outcome string
  | FormatAddress string
  | Request "'r request"

fun perform :: "'r operation \<Rightarrow> agent_state \<Rightarrow> agent_state" where
  "perform (CorrectAddress address ai now) st = snd (correctAddress address ai now st)"
| "perform (FormatAddress address) st = st"
| "perform (Request r) st = snd (onRequest r st)"

fun perform_all :: "'r operation list \<Rightarrow> agent_state \<Rightarrow> agent_state" where
  "perform_all [] st = st"
| "perform_all (x # xs) st = perform_all xs (perform x st)"


section \<open>Notions used in the statements\<close>

text \<open>The \<open>i\<close>-th segment of the split input, if there is one.\<close>

definition segment :: "string list \<Rightarrow> nat \<Rightarrow> string option" where
  "segment ps i = (if i < length ps then Some (ps ! i) else None)"

text \<open>The components a formatted address has, in the order street, neighbourhood, town,
  local government, state.\<close>

definition assigned_components :: "formatted_address \<Rightarrow> string list" where
  "assigned_components fa =
     List.map_filter id [street fa, neighbourhood fa, town fa, localGovernment fa, state fa]"

definition no_alternatives :: alternative_queries where
  "no_alternatives = \<lparr>neighbourhoodOnly = None, townOnly = None, localGovernmentOnly = None\<rparr>"

definition from_parts :: "string list \<Rightarrow> string option \<Rightarrow> bool" where
  "from_parts ps c = (case c of None \<Rightarrow> True | Some s \<Rightarrow> s \<in> set ps)"

text \<open>The outcomes of the model call on which the body of \<^verbatim>\<open>try\<close> throws.\<close>

definition raises :: "ai_outcome \<Rightarrow> bool" where
  "raises ai = (case ai of CallFails \<Rightarrow> True | ContentNotJson \<Rightarrow> True
                | Parsed r \<Rightarrow> reply_corrections r = None)"

text \<open>A call is recorded when the body of \<^verbatim>\<open>try\<close> runs to its \<^verbatim>\<open>return\<close>; whether it
  does depends on the model's reply only, not on the state.\<close>

definition recorded :: "correction_call \<Rightarrow> bool" where
  "recorded c = (\<not> isl (correct_try (fst c) (fst (snd c)) (snd (snd c)) init))"

text \<open>The history entry a recorded call writes.\<close>

definition entry_of :: "correction_call \<Rightarrow> processed_address" where
  "entry_of c = \<lparr>original = fst c,
     corrected = (case fst (snd c) of Parsed r \<Rightarrow> reply_correctedAddress r | _ \<Rightarrow> None),
     timestamp = snd (snd c)\<rparr>"

text \<open>The \<^verbatim>\<open>corrections\<close> a call returns; they do not depend on the state either.\<close>

definition returned_corrections :: "correction_call \<Rightarrow> string list" where
  "returned_corrections c = corrections (fst (correct_call c init))"

text \<open>The keys of \<^verbatim>\<open>alternativeResults\<close>, in the order in which they are written.\<close>

definition keyed_by_category :: "(string \<times> 'r list) list \<Rightarrow> bool" where
  "keyed_by_category alt =
     (map fst alt \<in> {[''town''], [''neighborhood''], [''town'', ''neighborhood'']})"

subsection \<open>Sample inputs\<close>

definition sample_time :: string where
  "sample_time = ''2025-01-01T00:00:00.000Z''"

text \<open>A query with a neighbourhood and a town, and what \<^verbatim>\<open>formatAddress\<close> makes of it.\<close>

definition sample_query :: string where
  "sample_query = ''Aba Rd, GRA Area, Uyo''"

definition sample_formatted :: formatted_address where
  "sample_formatted =
     \<lparr>street = Some ''aba rd'', neighbourhood = Some ''gra area'', town = Some ''uyo'',
      localGovernment = None, state = None, formattedQuery = ''aba rd, gra area, uyo'',
      alternativeQueries = Some \<lparr>neighbourhoodOnly = Some ''gra area'', townOnly = Some ''uyo'',
        localGovernmentOnly = None\<rparr>\<rparr>"

text \<open>The URLs of its primary query and of its two fallback queries, and the body of
  the search response for it when the model call fails.\<close>

definition sample_primary_url :: string where
  "sample_primary_url =
     ''https://nm.latlens.com/nominatim/search?q=aba%20rd%2C%20gra%20area%2C%20uyo&format=json''"

definition sample_town_url :: string where
  "sample_town_url = ''https://nm.latlens.com/nominatim/search?q=uyo&format=json''"

definition sample_neighbourhood_url :: string where
  "sample_neighbourhood_url = ''https://nm.latlens.com/nominatim/search?q=gra%20area&format=json''"

definition sample_body :: "nat list \<Rightarrow> (string \<times> nat list) list option \<Rightarrow> nat search_body" where
  "sample_body data alt =
     \<lparr>search_original = sample_query, search_corrected = Some sample_query,
      search_corrections = [], search_confidence = Some 0,
      search_formatted = sample_formatted, results = data, alternativeResults = alt\<rparr>"

text \<open>Three geocoders: each answers every query with the same list of matches.\<close>

definition no_match :: "nat fetch" where
  "no_match url = Some []"

definition one_match :: "nat fetch" where
  "one_match url = Some [1]"

definition two_matches :: "nat fetch" where
  "two_matches url = Some [1, 2]"

text \<open>Three calls of \<^verbatim>\<open>correctAddress\<close>: the model is unreachable; it corrects two
  words; it finds nothing to correct.\<close>

definition failed_call :: correction_call where
  "failed_call = (''12 Alen Avenu, Ikeja'', CallFails, sample_time)"

definition correcting_call :: correction_call where
  "correcting_call =
     (''12 Alen Avenu, Ikeja'',
      Parsed \<lparr>reply_correctedAddress = Some ''12 Allen Avenue, Ikeja'',
              reply_corrections = Some [''Alen -> Allen'', ''Avenu -> Avenue''],
              reply_confidence = Some (9 / 10)\<rparr>,
      sample_time)"

definition clean_call :: correction_call where
  "clean_call =
     (''Allen Avenue, Ikeja'',
      Parsed \<lparr>reply_correctedAddress = Some ''Allen Avenue, Ikeja'', reply_corrections = Some [],
              reply_confidence = Some 1\<rparr>,
      sample_time)"

text \<open>\<open>n\<close> recorded calls with \<open>n\<close> different addresses.\<close>

definition sample_calls :: "nat \<Rightarrow> correction_call list" where
  "sample_calls n =
     map (\<lambda>i. (replicate (Suc i) CHR ''a'',
               Parsed \<lparr>reply_correctedAddress = Some ''a'', reply_corrections = Some [],
                       reply_confidence = None\<rparr>,
               sample_time)) [0..<n]"

section \<open>Properties of the decomposer\<close>

subsection \<open>Segments and their assignment\<close>

lemma parts_nonempty: "p \<in> set (parts a) \<Longrightarrow> p \<noteq> []"
  by (auto simp: parts_def)

lemma shape_cases:
  obtains "ps = []" | a where "ps = [a]" | a b where "ps = [a, b]" | a b c where "ps = [a, b, c]"
  | a b c d where "ps = [a, b, c, d]" | a b c d e r where "ps = a # b # c # d # e # r"
  by (metis list.exhaust)

lemmas assign_defs = assign_parts_def assign_state_def assign_localGovernment_def
  assign_second_def assign_street_def empty_address_def

lemma assign_parts_from_parts:
  "from_parts ps (street (assign_parts ps))"
  "from_parts ps (neighbourhood (assign_parts ps))"
  "from_parts ps (town (assign_parts ps))"
  "from_parts ps (localGovernment (assign_parts ps))"
  "from_parts ps (state (assign_parts ps))"
  by (cases ps rule: shape_cases; simp add: from_parts_def assign_defs Let_def)+

lemma from_parts_truthy:
  "from_parts ps c \<Longrightarrow> \<forall>p\<in>set ps. p \<noteq> [] \<Longrightarrow> c = None \<or> truthy c"
  by (cases c) (auto simp: from_parts_def)

lemma push_if_truthy: "c = None \<or> truthy c \<Longrightarrow> push_if c qs = qs @ List.map_filter id [c]"
  by (cases c) (auto simp: List.map_filter_def)

lemma queryParts_assigned:
  assumes "\<forall>p\<in>set ps. p \<noteq> []"
  shows "queryParts (assign_parts ps) = assigned_components (assign_parts ps)"
proof -
  let ?fa = "assign_parts ps"
  note t = from_parts_truthy [OF _ assms]
  have "queryParts ?fa = List.map_filter id [street ?fa] @ List.map_filter id [neighbourhood ?fa]
      @ List.map_filter id [town ?fa] @ List.map_filter id [localGovernment ?fa]
      @ List.map_filter id [state ?fa]"
    unfolding queryParts_def
    by (simp add: push_if_truthy t assign_parts_from_parts)
  also have "\<dots> = assigned_components ?fa"
    by (simp add: assigned_components_def List.map_filter_def)
  finally show ?thesis .
qed

lemma assigned_in_parts: "c \<in> set (assigned_components (assign_parts ps)) \<Longrightarrow> c \<in> set ps"
  using assign_parts_from_parts [of ps]
  by (auto simp: assigned_components_def List.map_filter_def from_parts_def split: option.splits)

lemma formatAddress_components:
  "street (formatAddress a) = street (assign_parts (parts a))"
  "neighbourhood (formatAddress a) = neighbourhood (assign_parts (parts a))"
  "town (formatAddress a) = town (assign_parts (parts a))"
  "localGovernment (formatAddress a) = localGovernment (assign_parts (parts a))"
  "state (formatAddress a) = state (assign_parts (parts a))"
  by (simp_all add: formatAddress_def Let_def)

lemma assigned_components_formatAddress:
  "assigned_components (formatAddress a) = assigned_components (assign_parts (parts a))"
  by (simp add: assigned_components_def formatAddress_components)

lemma formattedQuery_formatAddress:
  "formattedQuery (formatAddress a) = join '', '' (queryParts (assign_parts (parts a)))"
  by (simp add: formatAddress_def Let_def)

lemma formatAddress_no_parts:
  "parts a = [] \<Longrightarrow> formatAddress a = empty_address\<lparr>alternativeQueries := Some no_alternatives\<rparr>"
  by (simp add: formatAddress_def Let_def assign_defs queryParts_def or_undefined_def
      no_alternatives_def)

text \<open>
  With a neighbourhood keyword in the second segment the five components take the first
  five segments in order.
\<close>

lemma assign_parts_shift:
  assumes "\<forall>p\<in>set ps. p \<noteq> []" "2 \<le> length ps" "has_neighbourhood_keyword (ps ! 1)"
  shows "street (assign_parts ps) = Some (ps ! 0)"
    "neighbourhood (assign_parts ps) = Some (ps ! 1)"
    "town (assign_parts ps) = segment ps 2"
    "localGovernment (assign_parts ps) = segment ps 3"
    "state (assign_parts ps) = segment ps 4"
  using assms by (cases ps rule: shape_cases; simp add: assign_defs Let_def segment_def)+

text \<open>
  Without the keyword the second segment is the town, and the local government and the
  state still come from the fourth and the fifth segment: the test \<^verbatim>\<open>!formattedAddress.town\<close>
  on line 169 never holds once there are three segments, so the third segment is assigned
  to nothing.
\<close>

lemma assign_parts_no_keyword:
  assumes "\<forall>p\<in>set ps. p \<noteq> []" "2 \<le> length ps" "\<not> has_neighbourhood_keyword (ps ! 1)"
  shows "street (assign_parts ps) = Some (ps ! 0)"
    "neighbourhood (assign_parts ps) = None"
    "town (assign_parts ps) = Some (ps ! 1)"
    "localGovernment (assign_parts ps) = segment ps 3"
    "state (assign_parts ps) = segment ps 4"
  using assms by (cases ps rule: shape_cases; simp add: assign_defs Let_def segment_def)+

subsection \<open>The inputs of the examples, evaluated\<close>

lemma parts_all_noise: "parts ''No. 15 near the'' = []"
  by code_simp

lemma parts_empty_input: "parts [] = []"
  by code_simp

lemma parts_two_segments: "parts ''12 Allen Avenue, Ikeja'' = [''allen avenue'', ''ikeja'']"
  by code_simp

lemma parts_shift_example:
  "parts ''Allen Avenue, GRA district, Ikeja, Lagos'' =
     [''allen avenue'', ''gra district'', ''ikeja'', ''lagos'']"
  by code_simp

lemma parts_six_segments:
  "parts ''Rd 5, Garki Area 11, Abuja, AMAC, FCT, Nigeria'' =
     [''rd'', ''garki area'', ''abuja'', ''amac'', ''fct'', ''nigeria'']"
  by code_simp

lemma cleaned_non_shift_example:
  "cleanedAddress ''Allen Avenue, Ikeja, Lagos, Nigeria'' = ''allen avenue, ikeja, lagos, nigeria''"
  by code_simp

lemma stripped_non_shift_example:
  "withoutDescriptives ''Allen Avenue, Ikeja, Lagos, Nigeria'' = ''allen avenue, ikeja, lagos, nigeria''"
  unfolding withoutDescriptives_def cleaned_non_shift_example by code_simp

lemma parts_non_shift_example:
  "parts ''Allen Avenue, Ikeja, Lagos, Nigeria'' = [''allen avenue'', ''ikeja'', ''lagos'', ''nigeria'']"
  unfolding parts_def stripped_non_shift_example by code_simp

lemma parts_non_shift_query:
  "parts ''allen avenue, ikeja, nigeria'' = [''allen avenue'', ''ikeja'', ''nigeria'']"
  by code_simp

lemma parts_sample: "parts sample_query = [''aba rd'', ''gra area'', ''uyo'']"
  unfolding sample_query_def by code_simp

lemma formatAddress_sample: "formatAddress sample_query = sample_formatted"
  unfolding formatAddress_def parts_sample sample_formatted_def by code_simp

subsection \<open>The claims about \<^verbatim>\<open>formatAddress\<close>\<close>

text \<open>
  Claim C1. For every input string \<^verbatim>\<open>formatAddress\<close> returns a formatted address (it is a
  total function: no branch of it fails), and its \<^verbatim>\<open>formattedQuery\<close> is the components
  assigned in the returned address, in the order street, neighbourhood, town, local
  government, state, joined by a comma and a space. No assigned component is empty. An
  input that leaves no segment gives the empty address with the empty query.
\<close>

theorem formatAddress_query_joins_assigned:
  "formattedQuery (formatAddress a) = join '', '' (assigned_components (formatAddress a))
   \<and> (\<forall>c\<in>set (assigned_components (formatAddress a)). c \<noteq> [])
   \<and> (parts a = [] \<longrightarrow>
        formatAddress a = empty_address\<lparr>alternativeQueries := Some no_alternatives\<rparr>)"
proof (intro conjI ballI impI)
  have ne: "\<forall>p\<in>set (parts a). p \<noteq> []"
    using parts_nonempty by blast
  show "formattedQuery (formatAddress a) = join '', '' (assigned_components (formatAddress a))"
    by (simp add: formattedQuery_formatAddress assigned_components_formatAddress
        queryParts_assigned [OF ne])
  show "c \<noteq> []" if "c \<in> set (assigned_components (formatAddress a))" for c
    using that ne assigned_in_parts [of c "parts a"]
    by (auto simp: assigned_components_formatAddress)
  show "formatAddress a = empty_address\<lparr>alternativeQueries := Some no_alternatives\<rparr>"
    if "parts a = []"
    using that by (rule formatAddress_no_parts)
qed

text \<open>
  The theorem at an input that is all noise, at the empty input, and at an input with a
  house number and two segments.
\<close>

theorem formatAddress_query_joins_assigned_witness:
  "parts ''No. 15 near the'' = []
   \<and> formatAddress ''No. 15 near the'' = empty_address\<lparr>alternativeQueries := Some no_alternatives\<rparr>
   \<and> formatAddress [] = empty_address\<lparr>alternativeQueries := Some no_alternatives\<rparr>
   \<and> assigned_components (formatAddress ''12 Allen Avenue, Ikeja'') = [''allen avenue'', ''ikeja'']
   \<and> formattedQuery (formatAddress ''12 Allen Avenue, Ikeja'') = ''allen avenue, ikeja''"
proof -
  have "assigned_components (assign_parts [''allen avenue'', ''ikeja'']) = [''allen avenue'', ''ikeja'']"
    by code_simp
  then have c: "assigned_components (formatAddress ''12 Allen Avenue, Ikeja'') = [''allen avenue'', ''ikeja'']"
    by (simp only: assigned_components_formatAddress parts_two_segments)
  have j: "join '', '' [''allen avenue'', ''ikeja''] = ''allen avenue, ikeja''"
    by code_simp
  from formatAddress_query_joins_assigned [of "''No. 15 near the''"] parts_all_noise
  have 1: "formatAddress ''No. 15 near the'' = empty_address\<lparr>alternativeQueries := Some no_alternatives\<rparr>"
    by (elim conjE) (rule mp)
  from formatAddress_query_joins_assigned [of "[]"] parts_empty_input
  have 2: "formatAddress [] = empty_address\<lparr>alternativeQueries := Some no_alternatives\<rparr>"
    by (elim conjE) (rule mp)
  from formatAddress_query_joins_assigned [of "''12 Allen Avenue, Ikeja''"]
  have "formattedQuery (formatAddress ''12 Allen Avenue, Ikeja'') =
      join '', '' (assigned_components (formatAddress ''12 Allen Avenue, Ikeja''))"
    by (rule conjunct1)
  then have 3: "formattedQuery (formatAddress ''12 Allen Avenue, Ikeja'') = ''allen avenue, ikeja''"
    by (simp only: c j)
  show ?thesis
    by (rule conjI [OF parts_all_noise conjI [OF 1 conjI [OF 2 conjI [OF c 3]]]])
qed

text \<open>
  Claim C2. The input \<^verbatim>\<open>"Allen Avenue, GRA district, Ikeja, Lagos"\<close> gets the neighbourhood
  \<^verbatim>\<open>"gra district"\<close>, the town \<^verbatim>\<open>"ikeja"\<close> and the local government \<^verbatim>\<open>"lagos"\<close>, and no
  state. In general, when the second segment contains \<^verbatim>\<open>district\<close>, \<^verbatim>\<open>area\<close> or
  \<^verbatim>\<open>quarter\<close> it is the neighbourhood, and town, local government and state are the third,
  fourth and fifth segment, each one segment later than its place without a
  neighbourhood.
\<close>

theorem neighbourhood_shift:
  "neighbourhood (formatAddress ''Allen Avenue, GRA district, Ikeja, Lagos'') = Some ''gra district''
   \<and> town (formatAddress ''Allen Avenue, GRA district, Ikeja, Lagos'') = Some ''ikeja''
   \<and> localGovernment (formatAddress ''Allen Avenue, GRA district, Ikeja, Lagos'') = Some ''lagos''
   \<and> state (formatAddress ''Allen Avenue, GRA district, Ikeja, Lagos'') = None
   \<and> (2 \<le> length (parts a) \<and> has_neighbourhood_keyword (parts a ! 1) \<longrightarrow>
        neighbourhood (formatAddress a) = Some (parts a ! 1)
        \<and> town (formatAddress a) = segment (parts a) 2
        \<and> localGovernment (formatAddress a) = segment (parts a) 3
        \<and> state (formatAddress a) = segment (parts a) 4)"
proof -
  have ne: "\<forall>p\<in>set (parts a). p \<noteq> []"
    using parts_nonempty by blast
  have "neighbourhood (assign_parts [''allen avenue'', ''gra district'', ''ikeja'', ''lagos'']) = Some ''gra district''
     \<and> town (assign_parts [''allen avenue'', ''gra district'', ''ikeja'', ''lagos'']) = Some ''ikeja''
     \<and> localGovernment (assign_parts [''allen avenue'', ''gra district'', ''ikeja'', ''lagos'']) = Some ''lagos''
     \<and> state (assign_parts [''allen avenue'', ''gra district'', ''ikeja'', ''lagos'']) = None"
    by code_simp
  then have ex:
    "neighbourhood (formatAddress ''Allen Avenue, GRA district, Ikeja, Lagos'') = Some ''gra district''"
    "town (formatAddress ''Allen Avenue, GRA district, Ikeja, Lagos'') = Some ''ikeja''"
    "localGovernment (formatAddress ''Allen Avenue, GRA district, Ikeja, Lagos'') = Some ''lagos''"
    "state (formatAddress ''Allen Avenue, GRA district, Ikeja, Lagos'') = None"
    by (simp_all only: formatAddress_components parts_shift_example)
  have gen: "2 \<le> length (parts a) \<and> has_neighbourhood_keyword (parts a ! 1) \<longrightarrow>
        neighbourhood (formatAddress a) = Some (parts a ! 1)
        \<and> town (formatAddress a) = segment (parts a) 2
        \<and> localGovernment (formatAddress a) = segment (parts a) 3
        \<and> state (formatAddress a) = segment (parts a) 4"
    using assign_parts_shift [OF ne] by (simp add: formatAddress_components)
  show ?thesis
    by (rule conjI [OF ex(1) conjI [OF ex(2) conjI [OF ex(3) conjI [OF ex(4) gen]]]])
qed

text \<open>The general rule at an input with six segments, of which the sixth is dropped.\<close>

theorem neighbourhood_shift_witness:
  "2 \<le> length (parts ''Rd 5, Garki Area 11, Abuja, AMAC, FCT, Nigeria'')
   \<and> has_neighbourhood_keyword (parts ''Rd 5, Garki Area 11, Abuja, AMAC, FCT, Nigeria'' ! 1)
   \<and> neighbourhood (formatAddress ''Rd 5, Garki Area 11, Abuja, AMAC, FCT, Nigeria'') = Some ''garki area''
   \<and> town (formatAddress ''Rd 5, Garki Area 11, Abuja, AMAC, FCT, Nigeria'') = Some ''abuja''
   \<and> localGovernment (formatAddress ''Rd 5, Garki Area 11, Abuja, AMAC, FCT, Nigeria'') = Some ''amac''
   \<and> state (formatAddress ''Rd 5, Garki Area 11, Abuja, AMAC, FCT, Nigeria'') = Some ''fct''"
proof -
  let ?a = "''Rd 5, Garki Area 11, Abuja, AMAC, FCT, Nigeria''"
  have k: "has_neighbourhood_keyword ''garki area''" by code_simp
  have h: "2 \<le> length (parts ?a) \<and> has_neighbourhood_keyword (parts ?a ! 1)"
    using k by (simp add: parts_six_segments)
  note r = neighbourhood_shift [of ?a, THEN conjunct2, THEN conjunct2, THEN conjunct2,
      THEN conjunct2, THEN mp, OF h]
  then have "neighbourhood (formatAddress ?a) = Some ''garki area''
        \<and> town (formatAddress ?a) = Some ''abuja''
        \<and> localGovernment (formatAddress ?a) = Some ''amac''
        \<and> state (formatAddress ?a) = Some ''fct''"
    by (simp add: parts_six_segments segment_def)
  with h show ?thesis
    by simp
qed

text \<open>
  Claim C3. The input \<^verbatim>\<open>"Allen Avenue, Ikeja, Lagos, Nigeria"\<close> has four segments and no
  neighbourhood keyword. The claim expects the town \<^verbatim>\<open>"ikeja"\<close>, the local government
  \<^verbatim>\<open>"lagos"\<close> and the state \<^verbatim>\<open>"nigeria"\<close>. The program assigns the town \<^verbatim>\<open>"ikeja"\<close>, takes
  the fourth segment \<^verbatim>\<open>"nigeria"\<close> as the local government, leaves the state unset and
  assigns \<^verbatim>\<open>"lagos"\<close> to nothing.
\<close>

theorem non_shift_example_loses_third_segment:
  "parts ''Allen Avenue, Ikeja, Lagos, Nigeria'' = [''allen avenue'', ''ikeja'', ''lagos'', ''nigeria'']
   \<and> town (formatAddress ''Allen Avenue, Ikeja, Lagos, Nigeria'') = Some ''ikeja''
   \<and> localGovernment (formatAddress ''Allen Avenue, Ikeja, Lagos, Nigeria'') = Some ''nigeria''
   \<and> state (formatAddress ''Allen Avenue, Ikeja, Lagos, Nigeria'') = None
   \<and> formattedQuery (formatAddress ''Allen Avenue, Ikeja, Lagos, Nigeria'') = ''allen avenue, ikeja, nigeria''"
proof -
  have "town (assign_parts [''allen avenue'', ''ikeja'', ''lagos'', ''nigeria'']) = Some ''ikeja''
     \<and> localGovernment (assign_parts [''allen avenue'', ''ikeja'', ''lagos'', ''nigeria'']) = Some ''nigeria''
     \<and> state (assign_parts [''allen avenue'', ''ikeja'', ''lagos'', ''nigeria'']) = None
     \<and> join '', '' (queryParts (assign_parts [''allen avenue'', ''ikeja'', ''lagos'', ''nigeria''])) =
         ''allen avenue, ikeja, nigeria''"
    by code_simp
  then have "town (formatAddress ''Allen Avenue, Ikeja, Lagos, Nigeria'') = Some ''ikeja''
     \<and> localGovernment (formatAddress ''Allen Avenue, Ikeja, Lagos, Nigeria'') = Some ''nigeria''
     \<and> state (formatAddress ''Allen Avenue, Ikeja, Lagos, Nigeria'') = None
     \<and> formattedQuery (formatAddress ''Allen Avenue, Ikeja, Lagos, Nigeria'') = ''allen avenue, ikeja, nigeria''"
    by (simp only: formatAddress_components formattedQuery_formatAddress parts_non_shift_example)
  with parts_non_shift_example show ?thesis
    by (rule conjI)
qed

text \<open>
  Claim C7. Decomposing the query of a decomposition should give the same components
  again when the input has no noise. The input \<^verbatim>\<open>"Allen Avenue, Ikeja, Lagos, Nigeria"\<close>
  has none: stripping changes nothing in its cleaned form. Its decomposition has the
  local government \<^verbatim>\<open>"nigeria"\<close> and the query \<^verbatim>\<open>"allen avenue, ikeja, nigeria"\<close>; that
  query has three segments, and its decomposition has no local government.
\<close>

theorem decomposing_the_query_loses_localGovernment:
  "withoutDescriptives ''Allen Avenue, Ikeja, Lagos, Nigeria'' =
     cleanedAddress ''Allen Avenue, Ikeja, Lagos, Nigeria''
   \<and> formattedQuery (formatAddress ''Allen Avenue, Ikeja, Lagos, Nigeria'') = ''allen avenue, ikeja, nigeria''
   \<and> localGovernment (formatAddress ''Allen Avenue, Ikeja, Lagos, Nigeria'') = Some ''nigeria''
   \<and> localGovernment
        (formatAddress (formattedQuery (formatAddress ''Allen Avenue, Ikeja, Lagos, Nigeria''))) = None"
proof -
  have n: "withoutDescriptives ''Allen Avenue, Ikeja, Lagos, Nigeria'' =
      cleanedAddress ''Allen Avenue, Ikeja, Lagos, Nigeria''"
    by (simp only: stripped_non_shift_example cleaned_non_shift_example)
  have "join '', '' (queryParts (assign_parts [''allen avenue'', ''ikeja'', ''lagos'', ''nigeria''])) =
         ''allen avenue, ikeja, nigeria''
     \<and> localGovernment (assign_parts [''allen avenue'', ''ikeja'', ''lagos'', ''nigeria'']) = Some ''nigeria''"
    by code_simp
  then have q: "formattedQuery (formatAddress ''Allen Avenue, Ikeja, Lagos, Nigeria'') = ''allen avenue, ikeja, nigeria''"
    and l: "localGovernment (formatAddress ''Allen Avenue, Ikeja, Lagos, Nigeria'') = Some ''nigeria''"
    by (simp_all only: formatAddress_components formattedQuery_formatAddress parts_non_shift_example)
  have "localGovernment (assign_parts [''allen avenue'', ''ikeja'', ''nigeria'']) = None"
    by code_simp
  then have "localGovernment (formatAddress ''allen avenue, ikeja, nigeria'') = None"
    by (simp only: formatAddress_components parts_non_shift_query)
  then have t: "localGovernment
        (formatAddress (formattedQuery (formatAddress ''Allen Avenue, Ikeja, Lagos, Nigeria''))) = None"
    by (simp only: q)
  show ?thesis
    by (rule conjI [OF n conjI [OF q conjI [OF l t]]])
qed

section \<open>Properties of the corrector and of the statistics\<close>

subsection \<open>One call of \<^verbatim>\<open>correctAddress\<close>\<close>

lemma correct_try_raises: "isl (correct_try address ai now st) = raises ai"
  by (simp add: correct_try_def raises_def Let_def split: ai_outcome.splits option.splits)

lemma recorded_raises: "recorded c = (\<not> raises (fst (snd c)))"
  by (simp add: recorded_def correct_try_raises)

lemma correctAddress_raises:
  "raises ai \<Longrightarrow> correctAddress address ai now st =
     (\<lparr>correctedAddress = Some address, corrections = [], confidence = Some 0\<rparr>, st)"
  by (auto simp: correctAddress_def correct_try_def raises_def
      split: ai_outcome.splits option.splits)

lemma correctAddress_CallFails:
  "correctAddress q CallFails now st =
     (\<lparr>correctedAddress = Some q, corrections = [], confidence = Some 0\<rparr>, st)"
  by (simp add: correctAddress_def correct_try_def)

lemma correctAddress_parsed:
  "reply_corrections r = Some cs \<Longrightarrow>
   correctAddress address (Parsed r) now st =
     (\<lparr>correctedAddress = reply_correctedAddress r, corrections = cs, confidence = reply_confidence r\<rparr>,
      st\<lparr>correctionStats := (correctionStats st)
            \<lparr>spellingCorrected := spellingCorrected (correctionStats st) + (if cs = [] then 0 else 1),
             totalProcessed := totalProcessed (correctionStats st) + 1\<rparr>,
          processedAddresses := slice_last 100 (processedAddresses st @
             [\<lparr>original = address, corrected = reply_correctedAddress r, timestamp = now\<rparr>])\<rparr>)"
  by (simp add: correctAddress_def correct_try_def Let_def)

lemma not_raises_Parsed: "\<not> raises ai \<Longrightarrow> \<exists>r cs. ai = Parsed r \<and> reply_corrections r = Some cs"
  by (cases ai) (auto simp: raises_def)

lemma correct_call_unrecorded:
  "\<not> recorded c \<Longrightarrow> correct_call c st =
     (\<lparr>correctedAddress = Some (fst c), corrections = [], confidence = Some 0\<rparr>, st)"
  by (simp add: correct_call_def recorded_raises correctAddress_raises)

lemma correct_call_recorded:
  assumes "recorded c"
  shows "processedAddresses (snd (correct_call c st)) =
           slice_last 100 (processedAddresses st @ [entry_of c])"
    and "totalProcessed (correctionStats (snd (correct_call c st))) =
           totalProcessed (correctionStats st) + 1"
    and "spellingCorrected (correctionStats (snd (correct_call c st))) =
           spellingCorrected (correctionStats st)
             + (if corrections (fst (correct_call c st)) \<noteq> [] then 1 else 0)"
    and "missingComponentsAdded (correctionStats (snd (correct_call c st))) =
           missingComponentsAdded (correctionStats st)"
proof -
  obtain a ai now where c: "c = (a, ai, now)" by (cases c) auto
  with assms obtain r cs where ai: "ai = Parsed r" "reply_corrections r = Some cs"
    using not_raises_Parsed [of ai] by (auto simp: recorded_raises)
  note eq = correctAddress_parsed [OF ai(2), of a now st]
  show "processedAddresses (snd (correct_call c st)) =
           slice_last 100 (processedAddresses st @ [entry_of c])"
    by (simp add: correct_call_def c ai eq entry_of_def)
  show "totalProcessed (correctionStats (snd (correct_call c st))) =
           totalProcessed (correctionStats st) + 1"
    by (simp add: correct_call_def c ai eq)
  show "spellingCorrected (correctionStats (snd (correct_call c st))) =
           spellingCorrected (correctionStats st)
             + (if corrections (fst (correct_call c st)) \<noteq> [] then 1 else 0)"
    by (simp add: correct_call_def c ai eq)
  show "missingComponentsAdded (correctionStats (snd (correct_call c st))) =
           missingComponentsAdded (correctionStats st)"
    by (simp add: correct_call_def c ai eq)
qed

lemma corrections_state_independent:
  "corrections (fst (correct_call c st)) = returned_corrections c"
proof (cases "recorded c")
  case False
  then show ?thesis by (simp add: returned_corrections_def correct_call_unrecorded)
next
  case True
  obtain a ai now where c: "c = (a, ai, now)" by (cases c) auto
  with True obtain r cs where ai: "ai = Parsed r" "reply_corrections r = Some cs"
    using not_raises_Parsed [of ai] by (auto simp: recorded_raises)
  show ?thesis
    by (simp add: returned_corrections_def correct_call_def c ai correctAddress_parsed [OF ai(2)])
qed

lemma spelling_step:
  "spellingCorrected (correctionStats (snd (correct_call c st))) =
     spellingCorrected (correctionStats st) + (if returned_corrections c \<noteq> [] then 1 else 0)"
proof (cases "recorded c")
  case True
  then show ?thesis
    using correct_call_recorded(3) [OF True, of st] by (simp add: corrections_state_independent)
next
  case False
  then show ?thesis
    using corrections_state_independent [of c st] by (simp add: correct_call_unrecorded)
qed

lemma total_step:
  "totalProcessed (correctionStats (snd (correct_call c st))) =
     totalProcessed (correctionStats st) + (if recorded c then 1 else 0)"
  by (simp add: correct_call_recorded(2) correct_call_unrecorded)

lemma missing_step:
  "missingComponentsAdded (correctionStats (snd (correct_call c st))) =
     missingComponentsAdded (correctionStats st)"
  by (cases "recorded c") (simp_all add: correct_call_recorded(4) correct_call_unrecorded)

lemma history_step:
  "processedAddresses (snd (correct_call c st)) =
     (if recorded c then slice_last 100 (processedAddresses st @ [entry_of c])
      else processedAddresses st)"
  by (simp add: correct_call_recorded(1) correct_call_unrecorded)

text \<open>
  Claim C5. \<^verbatim>\<open>correctAddress\<close> never passes an exception on: whatever is thrown in the
  body of \<^verbatim>\<open>try\<close> (the model call rejects on a network error or a timeout, the content
  is not JSON, the parsed value has no \<^verbatim>\<open>corrections\<close> to take the length of), the
  function returns the input address with no corrections and confidence 0, and the state
  is as it was. These are all the ways in which the body throws.
\<close>

theorem correctAddress_never_throws:
  "(correct_try address ai now st = Inl e \<longrightarrow>
      correctAddress address ai now st =
        (\<lparr>correctedAddress = Some address, corrections = [], confidence = Some 0\<rparr>, st))
   \<and> correct_try address CallFails now st = Inl NetworkError
   \<and> correct_try address ContentNotJson now st = Inl SyntaxError
   \<and> (reply_corrections r = None \<longrightarrow> correct_try address (Parsed r) now st = Inl TypeError)
   \<and> (isl (correct_try address ai now st) \<longleftrightarrow>
        ai = CallFails \<or> ai = ContentNotJson
        \<or> (\<exists>r'. ai = Parsed r' \<and> reply_corrections r' = None))"
proof (intro conjI impI)
  assume "correct_try address ai now st = Inl e"
  then show "correctAddress address ai now st =
        (\<lparr>correctedAddress = Some address, corrections = [], confidence = Some 0\<rparr>, st)"
    by (simp add: correctAddress_def)
next
  show "isl (correct_try address ai now st) \<longleftrightarrow>
        ai = CallFails \<or> ai = ContentNotJson
        \<or> (\<exists>r'. ai = Parsed r' \<and> reply_corrections r' = None)"
    by (cases ai) (simp_all add: correct_try_def Let_def split: option.splits)
qed (simp_all add: correct_try_def)

text \<open>The theorem at a failed model call and at a reply without \<^verbatim>\<open>corrections\<close>.\<close>

theorem correctAddress_never_throws_witness:
  "correct_try ''12 Alen Avenu, Ikeja'' CallFails sample_time init = Inl NetworkError
   \<and> correctAddress ''12 Alen Avenu, Ikeja'' CallFails sample_time init =
       (\<lparr>correctedAddress = Some ''12 Alen Avenu, Ikeja'', corrections = [], confidence = Some 0\<rparr>, init)
   \<and> correctAddress ''12 Alen Avenu, Ikeja''
        (Parsed \<lparr>reply_correctedAddress = Some ''12 Allen Avenue, Ikeja'', reply_corrections = None,
                 reply_confidence = Some 1\<rparr>) sample_time init =
       (\<lparr>correctedAddress = Some ''12 Alen Avenu, Ikeja'', corrections = [], confidence = Some 0\<rparr>, init)"
proof -
  let ?a = "''12 Alen Avenu, Ikeja''"
  let ?r = "\<lparr>reply_correctedAddress = Some ''12 Allen Avenue, Ikeja'', reply_corrections = None,
                 reply_confidence = Some 1\<rparr>"
  note t1 = correctAddress_never_throws [of ?a CallFails sample_time init NetworkError ?r]
  note t2 = correctAddress_never_throws [of ?a "Parsed ?r" sample_time init TypeError ?r]
  have a: "correct_try ?a CallFails sample_time init = Inl NetworkError"
    by (rule t1 [THEN conjunct2, THEN conjunct1])
  have b: "reply_corrections ?r = None" by simp
  have c: "correct_try ?a (Parsed ?r) sample_time init = Inl TypeError"
    by (rule t2 [THEN conjunct2, THEN conjunct2, THEN conjunct2, THEN conjunct1, THEN mp, OF b])
  show ?thesis
    by (rule conjI [OF a conjI [OF t1 [THEN conjunct1, THEN mp, OF a]
          t2 [THEN conjunct1, THEN mp, OF c]]])
qed

subsection \<open>Sequences of calls\<close>

lemma total_all:
  "totalProcessed (correctionStats (correct_all cs st)) =
     totalProcessed (correctionStats st) + length (filter recorded cs)"
  by (induction cs arbitrary: st) (simp_all add: total_step)

lemma spelling_all:
  "spellingCorrected (correctionStats (correct_all cs st)) =
     spellingCorrected (correctionStats st)
       + length (filter (\<lambda>c. returned_corrections c \<noteq> []) cs)"
  by (induction cs arbitrary: st) (simp_all add: spelling_step)

lemma length_slice_last: "length (slice_last n xs) = min n (length xs)"
  by (simp add: slice_last_def)

lemma slice_last_all: "length xs \<le> n \<Longrightarrow> slice_last n xs = xs"
  by (simp add: slice_last_def)

lemma slice_last_append: "slice_last n (slice_last n xs @ ys) = slice_last n (xs @ ys)"
proof -
  have "length xs + length ys - (length xs - n + n) + (length xs - n) = length xs + length ys - n"
    by arith
  then show ?thesis by (simp add: slice_last_def)
qed

lemma slice_last_slice_last:
  assumes "m \<le> n"
  shows "slice_last m (slice_last n xs) = slice_last m xs"
proof -
  from assms have "length xs - (length xs - n + m) + (length xs - n) = length xs - m"
    by arith
  then show ?thesis by (simp add: slice_last_def)
qed

lemma hd_not_in_slice_last:
  assumes "distinct xs" "n < length xs"
  shows "hd xs \<notin> set (slice_last n xs)"
proof -
  from assms(2) obtain x t where xs: "xs = x # t" by (cases xs) auto
  with assms(2) have "slice_last n xs = drop (length t - n) t"
    by (simp add: slice_last_def Suc_diff_le)
  then have "set (slice_last n xs) \<subseteq> set t"
    by (simp add: set_drop_subset)
  with assms(1) xs show ?thesis by auto
qed

lemma history_all:
  "length (processedAddresses st) \<le> 100 \<Longrightarrow>
   processedAddresses (correct_all cs st) =
     slice_last 100 (processedAddresses st @ map entry_of (filter recorded cs))"
proof (induction cs arbitrary: st)
  case Nil
  then show ?case by (simp add: slice_last_all)
next
  case (Cons c cs)
  have "length (processedAddresses (snd (correct_call c st))) \<le> 100"
    using Cons.prems by (simp add: history_step length_slice_last)
  from Cons.IH [OF this] show ?case
    by (simp add: history_step slice_last_append)
qed

lemma history_init:
  "processedAddresses (correct_all cs init) = slice_last 100 (map entry_of (filter recorded cs))"
  using history_all [of init cs] by (simp add: init_def)

lemma recorded_sample: "filter recorded (sample_calls n) = sample_calls n"
  by (rule filter_True) (auto simp: sample_calls_def recorded_raises raises_def)

lemma distinct_sample: "distinct (map entry_of (sample_calls n))"
  by (auto simp: sample_calls_def distinct_map entry_of_def inj_on_def o_def
      dest: arg_cong [where f = length])

lemma recorded_three:
  "\<not> recorded failed_call" "recorded correcting_call" "recorded clean_call"
  by (simp_all add: recorded_raises raises_def failed_call_def correcting_call_def clean_call_def)

lemma returned_three:
  "returned_corrections failed_call = []"
  "returned_corrections correcting_call = [''Alen -> Allen'', ''Avenu -> Avenue'']"
  "returned_corrections clean_call = []"
  by (simp_all add: returned_corrections_def correct_call_def correctAddress_def correct_try_def
      Let_def failed_call_def correcting_call_def clean_call_def)

text \<open>
  Claim C6, as stated: every call of \<^verbatim>\<open>correctAddress\<close> increments \<^verbatim>\<open>totalProcessed\<close>.
  A call whose model request fails returns through \<^verbatim>\<open>catch\<close>, and the counter is still 0
  after it.
\<close>

theorem failed_call_is_not_counted:
  "totalProcessed (correctionStats (snd (correct_call failed_call init))) = 0
   \<and> totalProcessed (correctionStats (correct_all [failed_call] init)) \<noteq> length [failed_call]"
  by (simp add: correct_call_def failed_call_def correctAddress_CallFails init_def)

text \<open>
  Claim C6, amended. A call of \<^verbatim>\<open>correctAddress\<close> whose body of \<^verbatim>\<open>try\<close> runs to its
  \<^verbatim>\<open>return\<close> increments \<^verbatim>\<open>totalProcessed\<close>; a call that returns through \<^verbatim>\<open>catch\<close> leaves
  the state as it was and returns no corrections. Every call increments
  \<^verbatim>\<open>spellingCorrected\<close> exactly when the corrections it returns are not empty. Hence
  after a sequence of calls from the initial state \<^verbatim>\<open>totalProcessed\<close> is the number of
  calls that did not fall back, and \<^verbatim>\<open>spellingCorrected\<close> is the number of calls that
  returned corrections.
\<close>

theorem correction_stats_count_recorded_calls:
  "totalProcessed (correctionStats (correct_all cs init)) = length (filter recorded cs)
   \<and> spellingCorrected (correctionStats (correct_all cs init)) =
       length (filter (\<lambda>c. returned_corrections c \<noteq> []) cs)
   \<and> (recorded c \<longrightarrow>
        totalProcessed (correctionStats (snd (correct_call c st))) =
          totalProcessed (correctionStats st) + 1)
   \<and> (\<not> recorded c \<longrightarrow>
        snd (correct_call c st) = st \<and> corrections (fst (correct_call c st)) = [])
   \<and> spellingCorrected (correctionStats (snd (correct_call c st))) =
        spellingCorrected (correctionStats st)
          + (if corrections (fst (correct_call c st)) \<noteq> [] then 1 else 0)"
proof (intro conjI impI)
  show "totalProcessed (correctionStats (correct_all cs init)) = length (filter recorded cs)"
    by (simp add: total_all init_def)
  show "spellingCorrected (correctionStats (correct_all cs init)) =
       length (filter (\<lambda>c. returned_corrections c \<noteq> []) cs)"
    by (simp add: spelling_all init_def)
  show "spellingCorrected (correctionStats (snd (correct_call c st))) =
        spellingCorrected (correctionStats st)
          + (if corrections (fst (correct_call c st)) \<noteq> [] then 1 else 0)"
    by (simp add: spelling_step corrections_state_independent)
qed (simp_all add: total_step correct_call_unrecorded)

text \<open>The theorem at three calls: one falls back, one corrects two words, one corrects
  nothing.\<close>

theorem correction_stats_count_recorded_calls_witness:
  "\<not> recorded failed_call \<and> recorded correcting_call
   \<and> snd (correct_call failed_call init) = init
   \<and> totalProcessed (correctionStats (snd (correct_call correcting_call init))) = 1
   \<and> totalProcessed (correctionStats (correct_all [failed_call, correcting_call, clean_call] init)) = 2
   \<and> spellingCorrected (correctionStats (correct_all [failed_call, correcting_call, clean_call] init)) = 1"
proof -
  let ?cs = "[failed_call, correcting_call, clean_call]"
  note f = correction_stats_count_recorded_calls [of ?cs failed_call init]
  note c = correction_stats_count_recorded_calls [of ?cs correcting_call init]
  have n: "length (filter recorded ?cs) = 2"
    by (simp add: recorded_three)
  have k: "length (filter (\<lambda>c. returned_corrections c \<noteq> []) ?cs) = 1"
    by (simp add: returned_three)
  have 1: "snd (correct_call failed_call init) = init"
    by (rule f [THEN conjunct2, THEN conjunct2, THEN conjunct2, THEN conjunct1, THEN mp,
          OF recorded_three(1), THEN conjunct1])
  have "totalProcessed (correctionStats (snd (correct_call correcting_call init))) =
      totalProcessed (correctionStats init) + 1"
    by (rule c [THEN conjunct2, THEN conjunct2, THEN conjunct1, THEN mp, OF recorded_three(2)])
  then have 2: "totalProcessed (correctionStats (snd (correct_call correcting_call init))) = 1"
    by (simp add: init_def)
  have 3: "totalProcessed (correctionStats (correct_all ?cs init)) = 2"
    by (simp only: f [THEN conjunct1] n)
  have 4: "spellingCorrected (correctionStats (correct_all ?cs init)) = 1"
    by (simp only: f [THEN conjunct2, THEN conjunct1] k)
  show ?thesis
    by (rule conjI [OF recorded_three(1) conjI [OF recorded_three(2)
          conjI [OF 1 conjI [OF 2 conjI [OF 3 4]]]]])
qed

text \<open>
  Claim C9. Each recorded correction appends one entry with the original address, the
  corrected address and the time stamp, and the history keeps the last 100 entries: after
  the calls \<open>cs\<close> from the initial state it is the last 100 of the entries of the
  recorded calls, in their order, so its length is the minimum of their number and 100,
  and with more than 100 different entries the first one is gone. The stats response
  shows the 10 most recent entries.
\<close>

theorem history_bounded_fifo:
  "processedAddresses (correct_all cs init) = slice_last 100 (map entry_of (filter recorded cs))
   \<and> length (processedAddresses (correct_all cs init)) = min (length (filter recorded cs)) 100
   \<and> (recorded c \<longrightarrow>
        processedAddresses (snd (correct_call c st)) =
          slice_last 100 (processedAddresses st @ [entry_of c]))
   \<and> (100 < length (filter recorded cs) \<and> distinct (map entry_of (filter recorded cs)) \<longrightarrow>
        entry_of (hd (filter recorded cs)) \<notin> set (processedAddresses (correct_all cs init)))
   \<and> getStats (correct_all cs init) =
       StatsOk \<lparr>stats = correctionStats (correct_all cs init),
                recentAddresses = slice_last 10 (map entry_of (filter recorded cs))\<rparr>"
proof (intro conjI impI)
  show "length (processedAddresses (correct_all cs init)) = min (length (filter recorded cs)) 100"
    by (simp add: history_init length_slice_last min.commute)
  show "getStats (correct_all cs init) =
       StatsOk \<lparr>stats = correctionStats (correct_all cs init),
                recentAddresses = slice_last 10 (map entry_of (filter recorded cs))\<rparr>"
    by (simp add: getStats_def history_init slice_last_slice_last)
  assume h: "100 < length (filter recorded cs) \<and> distinct (map entry_of (filter recorded cs))"
  then have ne: "filter recorded cs \<noteq> []" by auto
  from h have "hd (map entry_of (filter recorded cs))
      \<notin> set (slice_last 100 (map entry_of (filter recorded cs)))"
    by (intro hd_not_in_slice_last) simp_all
  then show "entry_of (hd (filter recorded cs)) \<notin> set (processedAddresses (correct_all cs init))"
    using ne by (simp add: history_init hd_map)
qed (simp_all add: history_init correct_call_recorded(1))

text \<open>The theorem at 101 recorded calls with 101 different addresses.\<close>

theorem history_bounded_fifo_witness:
  "100 < length (filter recorded (sample_calls 101))
   \<and> distinct (map entry_of (filter recorded (sample_calls 101)))
   \<and> recorded (hd (sample_calls 101))
   \<and> processedAddresses (snd (correct_call (hd (sample_calls 101)) init)) =
       [entry_of (hd (sample_calls 101))]
   \<and> entry_of (hd (sample_calls 101)) \<notin> set (processedAddresses (correct_all (sample_calls 101) init))
   \<and> length (processedAddresses (correct_all (sample_calls 101) init)) = 100"
proof -
  let ?cs = "sample_calls 101"
  have l: "length ?cs = 101" by (simp add: sample_calls_def)
  have r: "recorded (hd ?cs)"
    by (simp add: sample_calls_def recorded_raises raises_def upt_rec [of 0])
  have h: "100 < length (filter recorded ?cs) \<and> distinct (map entry_of (filter recorded ?cs))"
    by (simp add: recorded_sample distinct_sample l)
  note t = history_bounded_fifo [of ?cs "hd ?cs" init]
  from t h have gone: "entry_of (hd (filter recorded ?cs)) \<notin> set (processedAddresses (correct_all ?cs init))"
    by blast
  from t r have "processedAddresses (snd (correct_call (hd ?cs) init)) =
      slice_last 100 (processedAddresses init @ [entry_of (hd ?cs)])"
    by blast
  then have one: "processedAddresses (snd (correct_call (hd ?cs) init)) = [entry_of (hd ?cs)]"
    by (simp add: init_def slice_last_def)
  from t have "length (processedAddresses (correct_all ?cs init)) = min (length (filter recorded ?cs)) 100"
    by blast
  then have len: "length (processedAddresses (correct_all ?cs init)) = 100"
    by (simp add: recorded_sample l)
  from h r one gone len show ?thesis
    by (simp add: recorded_sample)
qed

subsection \<open>The counter \<^verbatim>\<open>missingComponentsAdded\<close>\<close>

lemma correctAddress_missing:
  "missingComponentsAdded (correctionStats (snd (correctAddress a ai now st))) =
     missingComponentsAdded (correctionStats st)"
  using missing_step [of "(a, ai, now)" st] by (simp add: correct_call_def)

lemma perform_missing:
  "missingComponentsAdded (correctionStats (perform x st)) =
     missingComponentsAdded (correctionStats st)"
proof (cases x)
  case (Request r)
  then show ?thesis
    by (cases r)
      (auto simp: handleFormatAddress_def handleSearch_def Let_def correctAddress_missing
        split: request_body.splits option.splits prod.splits sum.splits)
qed (simp_all add: correctAddress_missing)

text \<open>
  Claim C10. \<^verbatim>\<open>missingComponentsAdded\<close> is 0 in the initial state and no operation changes
  it: after any sequence of corrections, decompositions and requests (format-address,
  search, stats, any other) it is still 0.
\<close>

theorem missingComponentsAdded_stays_zero:
  "missingComponentsAdded (correctionStats init) = 0
   \<and> missingComponentsAdded (correctionStats (perform_all ops init)) = 0"
proof -
  have "missingComponentsAdded (correctionStats (perform_all ops st)) =
      missingComponentsAdded (correctionStats st)" for st
    by (induction ops arbitrary: st) (simp_all add: perform_missing)
  then show ?thesis by (simp add: init_def)
qed

section \<open>Properties of the search cascade\<close>

subsection \<open>The alternative queries and the fetches\<close>

lemma alt_query_formatAddress:
  "alt_query townOnly (formatAddress a) = or_undefined (town (assign_parts (parts a)))"
  "alt_query neighbourhoodOnly (formatAddress a) = or_undefined (neighbourhood (assign_parts (parts a)))"
  "alt_query localGovernmentOnly (formatAddress a) = or_undefined (localGovernment (assign_parts (parts a)))"
  by (simp_all add: alt_query_def formatAddress_def Let_def)

lemma or_undefined_Some: "or_undefined c = Some t \<Longrightarrow> t \<noteq> []"
  by (cases c) (auto simp: or_undefined_def split: if_splits)

lemma alt_query_nonempty:
  "alt_query townOnly (formatAddress a) = Some t \<Longrightarrow> t \<noteq> []"
  "alt_query neighbourhoodOnly (formatAddress a) = Some t \<Longrightarrow> t \<noteq> []"
  by (auto simp: alt_query_formatAddress dest: or_undefined_Some)

lemma try_alternative_Some:
  "t \<noteq> [] \<Longrightarrow> fetch (generateNominatimUrl t) = Some r \<Longrightarrow>
   try_alternative fetch key (Some t) acc =
     (Inr (fst acc @ [(key, r)]), snd acc @ [generateNominatimUrl t])"
  by (simp add: try_alternative_def Let_def)

lemma try_alternative_cases:
  "try_alternative fetch key q acc = (Inr alt, calls) \<Longrightarrow>
     (alt = fst acc \<and> calls = snd acc)
     \<or> (\<exists>u r. fetch u = Some r \<and> alt = fst acc @ [(key, r)] \<and> calls = snd acc @ [u])"
  by (auto simp: try_alternative_def Let_def split: option.splits if_splits)

lemma search_try_enough:
  "fetch (generateNominatimUrl (formattedQuery fa)) = Some data \<Longrightarrow> 2 \<le> length data \<Longrightarrow>
   search_try fetch fa = (Inr (data, []), [generateNominatimUrl (formattedQuery fa)])"
  by (simp add: search_try_def Let_def)

lemma search_try_both:
  assumes "fetch (generateNominatimUrl (formattedQuery fa)) = Some data" "length data < 2"
    and "alt_query townOnly fa = Some t" "t \<noteq> []" "fetch (generateNominatimUrl t) = Some rt"
    and "alt_query neighbourhoodOnly fa = Some n" "n \<noteq> []" "fetch (generateNominatimUrl n) = Some rn"
  shows "search_try fetch fa =
     (Inr (data, [(''town'', rt), (''neighborhood'', rn)]),
      [generateNominatimUrl (formattedQuery fa), generateNominatimUrl t, generateNominatimUrl n])"
  using assms by (simp add: search_try_def Let_def try_alternative_Some)

lemma search_try_ignores_localGovernmentOnly:
  "search_try fetch (fa\<lparr>alternativeQueries := Some (aq\<lparr>localGovernmentOnly := x\<rparr>)\<rparr>) =
   search_try fetch (fa\<lparr>alternativeQueries := Some aq\<rparr>)"
proof -
  have a: "alt_query townOnly (fa\<lparr>alternativeQueries := Some (aq\<lparr>localGovernmentOnly := x\<rparr>)\<rparr>) =
      alt_query townOnly (fa\<lparr>alternativeQueries := Some aq\<rparr>)"
    by (simp add: alt_query_def)
  have b: "alt_query neighbourhoodOnly (fa\<lparr>alternativeQueries := Some (aq\<lparr>localGovernmentOnly := x\<rparr>)\<rparr>) =
      alt_query neighbourhoodOnly (fa\<lparr>alternativeQueries := Some aq\<rparr>)"
    by (simp add: alt_query_def)
  show ?thesis
    unfolding search_try_def a b by simp
qed

text \<open>What a completed body of \<^verbatim>\<open>try\<close> has fetched and collected.\<close>

lemma search_try_ok:
  assumes "search_try fetch fa = (Inr (data, alt), calls)"
  shows "\<exists>rest. calls = generateNominatimUrl (formattedQuery fa) # rest
     \<and> fetch (generateNominatimUrl (formattedQuery fa)) = Some data
     \<and> map (\<lambda>kr. Some (snd kr)) alt = map fetch rest
     \<and> (alt = [] \<or> keyed_by_category alt)"
proof -
  let ?u = "generateNominatimUrl (formattedQuery fa)"
  from assms obtain d where d: "fetch ?u = Some d"
    by (cases "fetch ?u") (simp_all add: search_try_def Let_def)
  show ?thesis
  proof (cases "length d < 2")
    case False
    with assms d have "data = d" "alt = []" "calls = [?u]"
      by (simp_all add: search_try_def Let_def)
    with d show ?thesis by simp
  next
    case True
    obtain x1 calls1 where t1:
      "try_alternative fetch ''town'' (alt_query townOnly fa) ([], [?u]) = (x1, calls1)"
      by (cases "try_alternative fetch ''town'' (alt_query townOnly fa) ([], [?u])")
    with assms d True obtain alt1 where x1: "x1 = Inr alt1"
      by (cases x1) (simp_all add: search_try_def Let_def)
    obtain x2 calls2 where t2:
      "try_alternative fetch ''neighborhood'' (alt_query neighbourhoodOnly fa) (alt1, calls1) = (x2, calls2)"
      by (cases "try_alternative fetch ''neighborhood'' (alt_query neighbourhoodOnly fa) (alt1, calls1)")
    with assms d True t1 x1 obtain alt2 where x2: "x2 = Inr alt2"
      by (cases x2) (simp_all add: search_try_def Let_def)
    from assms d True t1 x1 t2 x2 have e: "data = d" "alt = alt2" "calls = calls2"
      by (simp_all add: search_try_def Let_def)
    from try_alternative_cases [OF t1 [unfolded x1]]
    consider "alt1 = []" "calls1 = [?u]"
      | u r where "fetch u = Some r" "alt1 = [(''town'', r)]" "calls1 = [?u, u]"
      by auto
    then show ?thesis
    proof cases
      case 1
      from try_alternative_cases [OF t2 [unfolded x2]] 1
      consider "alt2 = []" "calls2 = [?u]"
        | u r where "fetch u = Some r" "alt2 = [(''neighborhood'', r)]" "calls2 = [?u, u]"
        by auto
      then show ?thesis
        using d e by cases (simp_all add: keyed_by_category_def)
    next
      case 2
      from try_alternative_cases [OF t2 [unfolded x2]] 2
      consider "alt2 = [(''town'', r)]" "calls2 = [?u, u]"
        | u' r' where "fetch u' = Some r'" "alt2 = [(''town'', r), (''neighborhood'', r')]"
            "calls2 = [?u, u, u']"
        by auto
      then show ?thesis
        using d e 2 by cases (simp_all add: keyed_by_category_def)
    qed
  qed
qed

subsection \<open>\<^verbatim>\<open>handleSearch\<close> around the body of \<^verbatim>\<open>try\<close>\<close>

lemma handleSearch_completed:
  assumes "q \<noteq> []"
    and "correctAddress q ai now st = (cr, st')"
    and "correctedAddress cr = Some ca"
    and "search_try fetch (formatAddress ca) = (Inr (data, alt), calls)"
  shows "handleSearch (Some q) ai now fetch st =
     \<lparr>response = SearchOk \<lparr>search_original = q, search_corrected = Some ca,
          search_corrections = corrections cr, search_confidence = confidence cr,
          search_formatted = formatAddress ca, results = data,
          alternativeResults = (if alt = [] then None else Some alt)\<rparr>,
      fetched = calls, state_after = st'\<rparr>"
  using assms by (simp add: handleSearch_def Let_def)

lemma handleSearch_ok:
  assumes "response (handleSearch query ai now fetch st) = SearchOk body"
  shows "\<exists>ca data alt calls.
      search_try fetch (formatAddress ca) = (Inr (data, alt), calls)
      \<and> results body = data
      \<and> alternativeResults body = (if length alt > 0 then Some alt else None)
      \<and> fetched (handleSearch query ai now fetch st) = calls"
proof -
  from assms have t: "truthy query"
    by (cases "truthy query") (simp_all add: handleSearch_def)
  let ?cr = "fst (correctAddress (the query) ai now st)"
  from assms t obtain ca where ca: "correctedAddress ?cr = Some ca"
    by (cases "correctedAddress ?cr") (simp_all add: handleSearch_def Let_def)
  obtain x calls where s: "search_try fetch (formatAddress ca) = (x, calls)"
    by (cases "search_try fetch (formatAddress ca)")
  from assms t ca s obtain data alt where x: "x = Inr (data, alt)"
    by (cases x) (auto simp: handleSearch_def Let_def)
  from assms t ca s x have "results body = data"
    "alternativeResults body = (if length alt > 0 then Some alt else None)"
    "fetched (handleSearch query ai now fetch st) = calls"
    by (auto simp: handleSearch_def Let_def)
  with s x show ?thesis by blast
qed

lemma urls_sample:
  "generateNominatimUrl ''aba rd, gra area, uyo'' = sample_primary_url"
  "generateNominatimUrl ''uyo'' = sample_town_url"
  "generateNominatimUrl ''gra area'' = sample_neighbourhood_url"
  unfolding sample_primary_url_def sample_town_url_def sample_neighbourhood_url_def
  by code_simp+

lemma alt_query_sample:
  "alt_query townOnly (formatAddress sample_query) = Some ''uyo''"
  "alt_query neighbourhoodOnly (formatAddress sample_query) = Some ''gra area''"
  "generateNominatimUrl (formattedQuery (formatAddress sample_query)) = sample_primary_url"
  "generateNominatimUrl (formattedQuery sample_formatted) = sample_primary_url"
  by (simp_all add: formatAddress_sample sample_formatted_def alt_query_def urls_sample)

text \<open>The sample query, served by a geocoder that finds fewer than two matches.\<close>

lemma handleSearch_sample_under_delivered:
  assumes "fetch sample_primary_url = Some data" "length data < 2"
    and "fetch sample_town_url = Some rt" "fetch sample_neighbourhood_url = Some rn"
  shows "handleSearch (Some sample_query) CallFails sample_time fetch init =
     \<lparr>response = SearchOk (sample_body data (Some [(''town'', rt), (''neighborhood'', rn)])),
      fetched = [sample_primary_url, sample_town_url, sample_neighbourhood_url],
      state_after = init\<rparr>"
proof -
  let ?cr = "\<lparr>correctedAddress = Some sample_query, corrections = [], confidence = Some 0\<rparr>"
  have q: "sample_query \<noteq> []" by (simp add: sample_query_def)
  have c: "correctedAddress ?cr = Some sample_query" by simp
  have "search_try fetch (formatAddress sample_query) =
     (Inr (data, [(''town'', rt), (''neighborhood'', rn)]),
      [generateNominatimUrl (formattedQuery (formatAddress sample_query)),
       generateNominatimUrl ''uyo'', generateNominatimUrl ''gra area''])"
    using assms by (intro search_try_both) (simp_all add: alt_query_sample urls_sample)
  then have s: "search_try fetch (formatAddress sample_query) =
     (Inr (data, [(''town'', rt), (''neighborhood'', rn)]),
      [sample_primary_url, sample_town_url, sample_neighbourhood_url])"
    by (simp only: alt_query_sample urls_sample)
  from handleSearch_completed [OF q correctAddress_CallFails c s]
  show ?thesis
    by (simp add: sample_body_def formatAddress_sample)
qed

subsection \<open>The claims about the cascade\<close>

text \<open>
  Claim C4. Take a search whose query is not empty, whose correction yields a corrected
  address, and whose primary fetch, for the formatted query, returns the list \<open>data\<close>.
  If \<open>data\<close> has two or more results, the primary URL is the only one fetched and the
  response has no \<^verbatim>\<open>alternativeResults\<close>. If it has fewer than two, the town and the
  neighbourhood alternative are both present and their fetches return, then exactly three
  URLs are fetched, for the formatted query, the town and the neighbourhood in this
  order, and \<^verbatim>\<open>alternativeResults\<close> has the keys \<^verbatim>\<open>town\<close> and \<^verbatim>\<open>neighborhood\<close>. The
  alternative for the local government is never fetched: the body of \<^verbatim>\<open>try\<close> does the
  same whatever that alternative is.
\<close>

theorem search_cascade:
  fixes fetch :: "'r fetch"
  assumes "q \<noteq> []"
    and "correctAddress q ai now st = (cr, st')"
    and "correctedAddress cr = Some ca"
    and "fetch (generateNominatimUrl (formattedQuery (formatAddress ca))) = Some data"
  shows "(2 \<le> length data \<longrightarrow>
            handleSearch (Some q) ai now fetch st =
              \<lparr>response = SearchOk \<lparr>search_original = q, search_corrected = Some ca,
                   search_corrections = corrections cr, search_confidence = confidence cr,
                   search_formatted = formatAddress ca, results = data,
                   alternativeResults = None\<rparr>,
               fetched = [generateNominatimUrl (formattedQuery (formatAddress ca))],
               state_after = st'\<rparr>)
         \<and> (length data < 2
            \<and> alt_query townOnly (formatAddress ca) = Some t
            \<and> alt_query neighbourhoodOnly (formatAddress ca) = Some n
            \<and> fetch (generateNominatimUrl t) = Some rt
            \<and> fetch (generateNominatimUrl n) = Some rn \<longrightarrow>
            handleSearch (Some q) ai now fetch st =
              \<lparr>response = SearchOk \<lparr>search_original = q, search_corrected = Some ca,
                   search_corrections = corrections cr, search_confidence = confidence cr,
                   search_formatted = formatAddress ca, results = data,
                   alternativeResults = Some [(''town'', rt), (''neighborhood'', rn)]\<rparr>,
               fetched = [generateNominatimUrl (formattedQuery (formatAddress ca)),
                          generateNominatimUrl t, generateNominatimUrl n],
               state_after = st'\<rparr>)
         \<and> search_try fetch (fa\<lparr>alternativeQueries := Some (aq\<lparr>localGovernmentOnly := x\<rparr>)\<rparr>) =
             search_try fetch (fa\<lparr>alternativeQueries := Some aq\<rparr>)"
proof (intro conjI impI)
  assume "2 \<le> length data"
  with assms(4) have "search_try fetch (formatAddress ca) =
      (Inr (data, []), [generateNominatimUrl (formattedQuery (formatAddress ca))])"
    by (rule search_try_enough)
  from handleSearch_completed [OF assms(1-3) this]
  show "handleSearch (Some q) ai now fetch st =
              \<lparr>response = SearchOk \<lparr>search_original = q, search_corrected = Some ca,
                   search_corrections = corrections cr, search_confidence = confidence cr,
                   search_formatted = formatAddress ca, results = data,
                   alternativeResults = None\<rparr>,
               fetched = [generateNominatimUrl (formattedQuery (formatAddress ca))],
               state_after = st'\<rparr>"
    by simp
next
  assume h: "length data < 2
            \<and> alt_query townOnly (formatAddress ca) = Some t
            \<and> alt_query neighbourhoodOnly (formatAddress ca) = Some n
            \<and> fetch (generateNominatimUrl t) = Some rt
            \<and> fetch (generateNominatimUrl n) = Some rn"
  then have "t \<noteq> []" "n \<noteq> []"
    using alt_query_nonempty by blast+
  with h assms(4) have "search_try fetch (formatAddress ca) =
     (Inr (data, [(''town'', rt), (''neighborhood'', rn)]),
      [generateNominatimUrl (formattedQuery (formatAddress ca)), generateNominatimUrl t,
       generateNominatimUrl n])"
    by (intro search_try_both) simp_all
  from handleSearch_completed [OF assms(1-3) this]
  show "handleSearch (Some q) ai now fetch st =
              \<lparr>response = SearchOk \<lparr>search_original = q, search_corrected = Some ca,
                   search_corrections = corrections cr, search_confidence = confidence cr,
                   search_formatted = formatAddress ca, results = data,
                   alternativeResults = Some [(''town'', rt), (''neighborhood'', rn)]\<rparr>,
               fetched = [generateNominatimUrl (formattedQuery (formatAddress ca)),
                          generateNominatimUrl t, generateNominatimUrl n],
               state_after = st'\<rparr>"
    by simp
qed (rule search_try_ignores_localGovernmentOnly)

text \<open>
  The theorem at the sample query with a failed model call: once with a geocoder that
  finds one match for every query, once with one that finds two.
\<close>

theorem search_cascade_witness:
  "handleSearch (Some sample_query) CallFails sample_time one_match init =
     \<lparr>response = SearchOk (sample_body [1] (Some [(''town'', [1]), (''neighborhood'', [1])])),
      fetched = [sample_primary_url, sample_town_url, sample_neighbourhood_url],
      state_after = init\<rparr>
   \<and> handleSearch (Some sample_query) CallFails sample_time two_matches init =
     \<lparr>response = SearchOk (sample_body [1, 2] None),
      fetched = [sample_primary_url],
      state_after = init\<rparr>"
proof -
  let ?cr = "\<lparr>correctedAddress = Some sample_query, corrections = [], confidence = Some 0\<rparr>"
  have q: "sample_query \<noteq> []" by (simp add: sample_query_def)
  have c: "correctedAddress ?cr = Some sample_query" by simp
  have f1: "one_match (generateNominatimUrl (formattedQuery (formatAddress sample_query))) = Some [1]"
    by (simp add: one_match_def)
  have f2: "two_matches (generateNominatimUrl (formattedQuery (formatAddress sample_query))) = Some [1, 2]"
    by (simp add: two_matches_def)
  have a: "length [1::nat] < 2
      \<and> alt_query townOnly (formatAddress sample_query) = Some ''uyo''
      \<and> alt_query neighbourhoodOnly (formatAddress sample_query) = Some ''gra area''
      \<and> one_match (generateNominatimUrl ''uyo'') = Some [1]
      \<and> one_match (generateNominatimUrl ''gra area'') = Some [1]"
    by (simp add: alt_query_sample one_match_def)
  have b: "2 \<le> length [1::nat, 2]" by simp
  note one = search_cascade [where fetch = one_match and q = sample_query and ai = CallFails
      and now = sample_time and st = init and cr = ?cr and st' = init and ca = sample_query
      and data = "[1]" and t = "''uyo''" and n = "''gra area''" and rt = "[1]" and rn = "[1]",
      OF q correctAddress_CallFails c f1]
  note two = search_cascade [where fetch = two_matches and q = sample_query and ai = CallFails
      and now = sample_time and st = init and cr = ?cr and st' = init and ca = sample_query
      and data = "[1, 2]", OF q correctAddress_CallFails c f2]
  have s: "corrections ?cr = []" "confidence ?cr = Some 0"
    by simp_all
  from one [THEN conjunct2, THEN conjunct1, rule_format, OF a]
  have 1: "handleSearch (Some sample_query) CallFails sample_time one_match init =
     \<lparr>response = SearchOk (sample_body [1] (Some [(''town'', [1]), (''neighborhood'', [1])])),
      fetched = [sample_primary_url, sample_town_url, sample_neighbourhood_url],
      state_after = init\<rparr>"
    by (simp only: s formatAddress_sample alt_query_sample urls_sample sample_body_def)
  from two [THEN conjunct1, rule_format, OF b]
  have 2: "handleSearch (Some sample_query) CallFails sample_time two_matches init =
     \<lparr>response = SearchOk (sample_body [1, 2] None),
      fetched = [sample_primary_url],
      state_after = init\<rparr>"
    by (simp only: s formatAddress_sample alt_query_sample sample_body_def)
  show ?thesis
    by (rule conjI [OF 1 2])
qed

text \<open>
  Claim C8, as stated: \<^verbatim>\<open>alternativeResults\<close> is present if and only if a fallback query
  was issued and its result is not empty. With a geocoder that finds nothing, both
  fallback queries of the sample are issued, both results are empty, and
  \<^verbatim>\<open>alternativeResults\<close> is present with the two empty lists.
\<close>

theorem empty_fallback_results_are_present:
  "handleSearch (Some sample_query) CallFails sample_time no_match init =
     \<lparr>response = SearchOk (sample_body [] (Some [(''town'', []), (''neighborhood'', [])])),
      fetched = [sample_primary_url, sample_town_url, sample_neighbourhood_url],
      state_after = init\<rparr>"
  by (rule handleSearch_sample_under_delivered) (simp_all add: no_match_def)

text \<open>
  Claim C8, amended. In a search response \<^verbatim>\<open>alternativeResults\<close> is present if and only
  if at least one fallback query was fetched, whether or not it found anything. The
  response holds what every fallback fetch returned, in the order of the fetches, under
  the keys \<^verbatim>\<open>town\<close> and \<^verbatim>\<open>neighborhood\<close>; \<^verbatim>\<open>results\<close> is what the primary fetch, the
  first one, returned.
\<close>

theorem alternativeResults_iff_fallback_fetched:
  fixes fetch :: "'r fetch"
  assumes "response (handleSearch query ai now fetch st) = SearchOk body"
  shows "fetched (handleSearch query ai now fetch st) \<noteq> []
    \<and> fetch (hd (fetched (handleSearch query ai now fetch st))) = Some (results body)
    \<and> (alternativeResults body \<noteq> None \<longleftrightarrow> tl (fetched (handleSearch query ai now fetch st)) \<noteq> [])
    \<and> (\<forall>alt. alternativeResults body = Some alt \<longrightarrow>
          map (\<lambda>kr. Some (snd kr)) alt = map fetch (tl (fetched (handleSearch query ai now fetch st)))
          \<and> keyed_by_category alt)"
proof -
  from handleSearch_ok [OF assms] obtain ca data alt calls where
    s: "search_try fetch (formatAddress ca) = (Inr (data, alt), calls)"
    and b: "results body = data" "alternativeResults body = (if length alt > 0 then Some alt else None)"
    and f: "fetched (handleSearch query ai now fetch st) = calls"
    by blast
  from search_try_ok [OF s] obtain rest where
    r: "calls = generateNominatimUrl (formattedQuery (formatAddress ca)) # rest"
      "fetch (generateNominatimUrl (formattedQuery (formatAddress ca))) = Some data"
      "map (\<lambda>kr. Some (snd kr)) alt = map fetch rest"
      "alt = [] \<or> keyed_by_category alt"
    by blast
  from r(3) have l: "length alt = length rest"
    by (rule map_eq_imp_length_eq)
  have 1: "fetched (handleSearch query ai now fetch st) \<noteq> []"
    by (simp add: f r(1))
  have 2: "fetch (hd (fetched (handleSearch query ai now fetch st))) = Some (results body)"
    by (simp add: f r(1) r(2) b(1))
  have 3: "alternativeResults body \<noteq> None \<longleftrightarrow> tl (fetched (handleSearch query ai now fetch st)) \<noteq> []"
    using l by (simp add: f r(1) b(2))
  have 4: "map (\<lambda>kr. Some (snd kr)) alt' = map fetch (tl (fetched (handleSearch query ai now fetch st)))
          \<and> keyed_by_category alt'"
    if "alternativeResults body = Some alt'" for alt'
  proof -
    from that b(2) have a: "alt' = alt" "alt \<noteq> []"
      by (simp_all split: if_splits)
    from r(4) have m: "keyed_by_category alt"
    proof
      assume "alt = []"
      with a(2) show ?thesis by contradiction
    qed
    have e: "map (\<lambda>kr. Some (snd kr)) alt = map fetch (tl (fetched (handleSearch query ai now fetch st)))"
      by (simp add: f r(1) r(3))
    from e m show ?thesis
      unfolding a(1) by (rule conjI)
  qed
  have 5: "\<forall>alt. alternativeResults body = Some alt \<longrightarrow>
          map (\<lambda>kr. Some (snd kr)) alt = map fetch (tl (fetched (handleSearch query ai now fetch st)))
          \<and> keyed_by_category alt"
    by (intro allI impI) (rule 4)
  show ?thesis
    by (rule conjI [OF 1 conjI [OF 2 conjI [OF 3 5]]])
qed

text \<open>
  The theorem at the sample query with the geocoder that finds nothing: the response has
  \<^verbatim>\<open>alternativeResults\<close>, two fallback URLs were fetched after the primary one, and
  \<^verbatim>\<open>results\<close> is the empty list of the primary fetch.
\<close>

theorem alternativeResults_iff_fallback_fetched_witness:
  "response (handleSearch (Some sample_query) CallFails sample_time no_match init) =
     SearchOk (sample_body [] (Some [(''town'', []), (''neighborhood'', [])]))
   \<and> fetched (handleSearch (Some sample_query) CallFails sample_time no_match init) \<noteq> []
   \<and> no_match (hd (fetched (handleSearch (Some sample_query) CallFails sample_time no_match init))) =
       Some (results (sample_body [] (Some [(''town'', []), (''neighborhood'', [])])))
   \<and> (alternativeResults (sample_body [] (Some [(''town'', []), (''neighborhood'', [])])) \<noteq> None
        \<longleftrightarrow> tl (fetched (handleSearch (Some sample_query) CallFails sample_time no_match init)) \<noteq> [])
   \<and> tl (fetched (handleSearch (Some sample_query) CallFails sample_time no_match init)) =
       [sample_town_url, sample_neighbourhood_url]"
proof -
  let ?h = "handleSearch (Some sample_query) CallFails sample_time no_match init"
  let ?b = "sample_body [] (Some [(''town'', []), (''neighborhood'', [])])"
  have h: "?h = \<lparr>response = SearchOk ?b,
      fetched = [sample_primary_url, sample_town_url, sample_neighbourhood_url],
      state_after = init\<rparr>"
    by (rule handleSearch_sample_under_delivered) (simp_all add: no_match_def)
  have r: "response ?h = SearchOk ?b"
    by (simp only: h served.simps)
  have t: "tl (fetched ?h) = [sample_town_url, sample_neighbourhood_url]"
    by (simp only: h served.simps list.sel)
  note w = alternativeResults_iff_fallback_fetched [OF r]
  show ?thesis
    by (rule conjI [OF r conjI [OF w [THEN conjunct1] conjI [OF w [THEN conjunct2, THEN conjunct1]
          conjI [OF w [THEN conjunct2, THEN conjunct2, THEN conjunct1] t]]]])
qed

end
